theory Spec2Isabelle
  imports Complex_Main "HOL-Library.Multiset"
begin

section \<open>Numeric arrays\<close>

text \<open>
  The notebooks compute on numpy arrays and pandas tables of float64 values. The
  embedding takes the entries as exact rationals: every comparison and sum below is
  the exact one. A one-dimensional array is a list, a two-dimensional array a list of
  rows. The concrete inputs used further down are dyadic fractions whose sums float64
  represents exactly, so the evaluations agree with the floating-point run.
\<close>

type_synonym vec = "rat list"
type_synonym matrix = "rat list list"

text \<open>\<^verbatim>\<open>np.cumsum(a)\<close>: the running sums of \<open>a\<close>.\<close>

fun cumsum_from :: "rat \<Rightarrow> vec \<Rightarrow> vec" where
  "cumsum_from acc [] = []"
| "cumsum_from acc (x # xs) = (acc + x) # cumsum_from (acc + x) xs"

definition cumsum :: "vec \<Rightarrow> vec" where
  "cumsum a = cumsum_from 0 a"

text \<open>
  \<^verbatim>\<open>np.argsort(a)\<close>: the positions of \<open>a\<close> in ascending order of their entries.
  numpy leaves the order of equal entries open; the model takes the stable order.
\<close>

definition argsort :: "vec \<Rightarrow> nat list" where
  "argsort a = sort_key (\<lambda>i. a ! i) [0..<length a]"

text \<open>\<^verbatim>\<open>a[idx]\<close> with an index array: the entries of \<open>a\<close> at the positions \<open>idx\<close>.\<close>

definition take_idx :: "'a list \<Rightarrow> nat list \<Rightarrow> 'a list" where
  "take_idx a idx = map (\<lambda>i. a ! i) idx"

text \<open>\<^verbatim>\<open>X[:, cols]\<close>: every row of \<open>X\<close> restricted to the columns \<open>cols\<close>.\<close>

definition select_columns :: "matrix \<Rightarrow> nat list \<Rightarrow> matrix" where
  "select_columns X cols = map (\<lambda>row. take_idx row cols) X"

text \<open>\<^verbatim>\<open>X.shape[1]\<close> of a two-dimensional array with at least one row.\<close>

definition n_columns :: "matrix \<Rightarrow> nat" where
  "n_columns X = (case X of [] \<Rightarrow> 0 | row # _ \<Rightarrow> length row)"

section \<open>Feature selection by cumulative importance\<close>

text \<open>
  The sixth cell of \<^verbatim>\<open>RF_Feature_Selection_7.ipynb\<close>:
  \<^verbatim>\<open>
  indices = np.argsort(importances)[::-1]
  cum_important = np.cumsum(importances[indices])
  selected_features = [feature for feature, cumulative_importance
                       in zip(indices, cum_important) if cumulative_importance <= 0.9]
  \<close>
\<close>

definition indices_of :: "vec \<Rightarrow> nat list" where
  "indices_of importances = rev (argsort importances)"

definition cum_important_of :: "vec \<Rightarrow> vec" where
  "cum_important_of importances = cumsum (take_idx importances (indices_of importances))"

definition selected_features_of :: "vec \<Rightarrow> nat list" where
  "selected_features_of importances =
     map fst (filter (\<lambda>(feature, cumulative_importance). cumulative_importance \<le> 9 / 10)
                (zip (indices_of importances) (cum_important_of importances)))"

text \<open>The share of the total importance that a list of features carries.\<close>

definition importance_mass :: "vec \<Rightarrow> nat list \<Rightarrow> rat" where
  "importance_mass importances features = sum_list (take_idx importances features)"

section \<open>Errors\<close>

text \<open>
  Neither notebook has a \<^verbatim>\<open>try\<close> statement. An exception raised by a library call is
  a value \<open>Inl e\<close>; \<open>and_then\<close> is the sequencing of two statements, which passes the
  first exception on and runs nothing after it.
\<close>

datatype error =
    FileNotFoundError
  | ParserError
  | KeyError string
  | IndexError
  | ValueError
  | NotFittedError

definition and_then :: "error + 'a \<Rightarrow> ('a \<Rightarrow> error + 'b) \<Rightarrow> error + 'b" where
  "and_then m f = (case m of Inl e \<Rightarrow> Inl e | Inr v \<Rightarrow> f v)"

section \<open>Tables\<close>

text \<open>
  A pandas DataFrame is its column names and its rows, each row with its index label;
  a Series is one column with the same labels. \<^verbatim>\<open>pd.read_csv\<close> labels the rows
  \<open>0, 1, 2, \<dots>\<close>, gives every row one entry per column and keeps the column
  names distinct, so that \<^verbatim>\<open>d[name]\<close> is a single column.
\<close>

record dataframe =
  columns :: "string list"
  rows :: "(nat \<times> vec) list"

type_synonym series = "(nat \<times> rat) list"

text \<open>\<^verbatim>\<open>d.drop(name, axis=1)\<close>: a new table without the column; KeyError when absent.\<close>

definition drop_column :: "string \<Rightarrow> dataframe \<Rightarrow> error + dataframe" where
  "drop_column name d =
     (if name \<notin> set (columns d) then Inl (KeyError name)
      else let keep = filter (\<lambda>j. columns d ! j \<noteq> name) [0..<length (columns d)]
           in Inr \<lparr>columns = take_idx (columns d) keep,
                   rows = map (\<lambda>(label, row). (label, take_idx row keep)) (rows d)\<rparr>)"

text \<open>\<^verbatim>\<open>d[name]\<close>: the column as a Series; KeyError when absent.\<close>

definition get_column :: "string \<Rightarrow> dataframe \<Rightarrow> error + series" where
  "get_column name d =
     (case filter (\<lambda>j. columns d ! j = name) [0..<length (columns d)] of
        [] \<Rightarrow> Inl (KeyError name)
      | j # _ \<Rightarrow> Inr (map (\<lambda>(label, row). (label, row ! j)) (rows d)))"

text \<open>\<^verbatim>\<open>d.iloc[:, :-1]\<close>: all columns but the last.\<close>

definition iloc_but_last :: "dataframe \<Rightarrow> dataframe" where
  "iloc_but_last d =
     \<lparr>columns = butlast (columns d),
      rows = map (\<lambda>(label, row). (label, take (length (columns d) - 1) row)) (rows d)\<rparr>"

text \<open>\<^verbatim>\<open>d.iloc[:, -1]\<close>: the last column; IndexError on a table without columns.\<close>

definition iloc_last :: "dataframe \<Rightarrow> error + series" where
  "iloc_last d =
     (if columns d = [] then Inl IndexError
      else Inr (map (\<lambda>(label, row). (label, row ! (length (columns d) - 1))) (rows d)))"

text \<open>\<^verbatim>\<open>pd.concat([a, b])\<close> of two tables with the same columns, and of two Series:
  the rows of \<open>a\<close> followed by the rows of \<open>b\<close>, each keeping its label.\<close>

definition concat_frames :: "dataframe \<Rightarrow> dataframe \<Rightarrow> dataframe" where
  "concat_frames a b = a\<lparr>rows := rows a @ rows b\<rparr>"

definition concat_series :: "series \<Rightarrow> series \<Rightarrow> series" where
  "concat_series a b = a @ b"

section \<open>The library's train/test split\<close>

text \<open>
  \<^verbatim>\<open>sklearn.model_selection.train_test_split(X, y, test_size=t, random_state=42)\<close>,
  with or without \<^verbatim>\<open>stratify=y\<close>. The library is not part of the repository; the
  model follows its documented steps. The sizes are
  \<open>n_test = \<lceil>t \<sdot> n\<rceil>\<close> and \<open>n_train = n - n_test\<close>, and an empty training
  set is a ValueError. The rows are drawn by the seeded generator: \<open>arrangement\<close> is the
  order in which it lists the row positions, the test rows first. Without \<open>stratify\<close>
  that is \<^verbatim>\<open>rng.permutation(n)\<close>; with it the library draws class by class, refuses a
  class with fewer than two members or more classes than rows on a side, and the
  arrangement stands for its draw.
\<close>

type_synonym rng = "vec option \<Rightarrow> nat \<Rightarrow> nat list"

definition validate_shuffle_split :: "nat \<Rightarrow> rat \<Rightarrow> error + nat \<times> nat" where
  "validate_shuffle_split n_samples test_size =
     (if test_size \<le> 0 \<or> 1 \<le> test_size then Inl ValueError
      else let n_test = nat \<lceil>test_size * of_nat n_samples\<rceil>;
               n_train = n_samples - n_test
           in if n_train = 0 then Inl ValueError else Inr (n_train, n_test))"

definition class_counts :: "vec \<Rightarrow> nat list" where
  "class_counts labels = map (\<lambda>c. count_list labels c) (remdups labels)"

definition stratify_checks :: "vec \<Rightarrow> nat \<Rightarrow> nat \<Rightarrow> error + unit" where
  "stratify_checks labels n_train n_test =
     (if \<not> list_all (\<lambda>k. 2 \<le> k) (class_counts labels) then Inl ValueError
      else if n_train < length (class_counts labels) then Inl ValueError
      else if n_test < length (class_counts labels) then Inl ValueError
      else Inr ())"

definition train_test_split ::
  "rng \<Rightarrow> dataframe \<Rightarrow> series \<Rightarrow> rat \<Rightarrow> bool
     \<Rightarrow> error + dataframe \<times> dataframe \<times> series \<times> series" where
  "train_test_split arrangement features labels test_size stratify =
     (if length (rows features) \<noteq> length labels then Inl ValueError
      else
        and_then (validate_shuffle_split (length (rows features)) test_size)
          (\<lambda>(n_train, n_test).
        and_then (if stratify then stratify_checks (map snd labels) n_train n_test else Inr ())
          (\<lambda>_.
        let perm = arrangement (if stratify then Some (map snd labels) else None)
                     (length (rows features));
            ind_test = take n_test perm;
            ind_train = take n_train (drop n_test perm)
        in Inr (features\<lparr>rows := take_idx (rows features) ind_train\<rparr>,
                features\<lparr>rows := take_idx (rows features) ind_test\<rparr>,
                take_idx labels ind_train,
                take_idx labels ind_test))))"

text \<open>The generator does its part when it lists every row position once.\<close>

definition is_arrangement :: "rng \<Rightarrow> bool" where
  "is_arrangement arrangement \<longleftrightarrow>
     (\<forall>labels n. mset (arrangement labels n) = mset [0..<n])"

section \<open>The hand-rolled split of the second notebook\<close>

text \<open>
  \<^verbatim>\<open>myTrainTestSplit(normalData, anomalousData)\<close> of \<^verbatim>\<open>Pipeline_ML_6.ipynb\<close>: the
  features are all columns but the last and the label is the last column; each source
  is split 70-30 on its own, and the parts are concatenated, normal rows first.
\<close>

definition myTrainTestSplit ::
  "rng \<Rightarrow> dataframe \<Rightarrow> dataframe
     \<Rightarrow> error + dataframe \<times> dataframe \<times> series \<times> series" where
  "myTrainTestSplit arrangement normalData anomalousData =
     (let X_normal = iloc_but_last normalData in
      and_then (iloc_last normalData) (\<lambda>y_normal.
      let X_anomalous = iloc_but_last anomalousData in
      and_then (iloc_last anomalousData) (\<lambda>y_anomalous.
      and_then (train_test_split arrangement X_normal y_normal (3 / 10) False)
        (\<lambda>(X_train_normal, X_test_normal, y_train_normal, y_test_normal).
      and_then (train_test_split arrangement X_anomalous y_anomalous (3 / 10) False)
        (\<lambda>(X_train_anomalous, X_test_anomalous, y_train_anomalous, y_test_anomalous).
      Inr (concat_frames X_train_normal X_train_anomalous,
           concat_frames X_test_normal X_test_anomalous,
           concat_series y_train_normal y_train_anomalous,
           concat_series y_test_normal y_test_anomalous))))))"

section \<open>The confusion matrix\<close>

text \<open>
  \<^verbatim>\<open>sklearn.metrics.confusion_matrix(y_true, y_pred)\<close>: the labels are the sorted
  distinct values of both vectors; cell \<open>(i, j)\<close> counts the rows whose true label is
  the \<open>i\<close>-th and whose predicted label is the \<open>j\<close>-th. Vectors of different lengths
  are a ValueError.
\<close>

definition unique_labels :: "vec \<Rightarrow> vec \<Rightarrow> vec" where
  "unique_labels y_true y_pred = sort (remdups (y_true @ y_pred))"

definition confusion_matrix :: "vec \<Rightarrow> vec \<Rightarrow> error + nat list list" where
  "confusion_matrix y_true y_pred =
     (if length y_true \<noteq> length y_pred then Inl ValueError
      else let labels = unique_labels y_true y_pred
           in Inr (map (\<lambda>t. map (\<lambda>p. count_list (zip y_true y_pred) (t, p)) labels) labels))"

definition cells :: "nat list list \<Rightarrow> nat list" where
  "cells m = concat m"

section \<open>The other metrics\<close>

text \<open>
  \<^verbatim>\<open>accuracy_score\<close> is the share of rows predicted right. \<^verbatim>\<open>f1_score\<close>,
  \<^verbatim>\<open>recall_score\<close> and \<^verbatim>\<open>precision_score\<close> score the label 1; they refuse more
  than two labels, and two labels without the label 1; a ratio with denominator zero
  is reported as 0. The notebooks score test sets that a split has returned, which
  are never empty; what the library does on empty vectors is not modelled.
\<close>

definition accuracy_score :: "vec \<Rightarrow> vec \<Rightarrow> error + rat" where
  "accuracy_score y_true y_pred =
     (if length y_true \<noteq> length y_pred then Inl ValueError
      else Inr (of_nat (length (filter (\<lambda>(t, p). t = p) (zip y_true y_pred)))
                / of_nat (length y_true)))"

definition binary_counts :: "vec \<Rightarrow> vec \<Rightarrow> error + nat \<times> nat \<times> nat" where
  "binary_counts y_true y_pred =
     (if length y_true \<noteq> length y_pred then Inl ValueError
      else if 2 < length (unique_labels y_true y_pred) then Inl ValueError
      else if length (unique_labels y_true y_pred) = 2 \<and> 1 \<notin> set (unique_labels y_true y_pred)
        then Inl ValueError
      else Inr (length (filter (\<lambda>(t, p). t = 1 \<and> p = 1) (zip y_true y_pred)),
                length (filter (\<lambda>(t, p). t \<noteq> 1 \<and> p = 1) (zip y_true y_pred)),
                length (filter (\<lambda>(t, p). t = 1 \<and> p \<noteq> 1) (zip y_true y_pred))))"

definition f1_score :: "vec \<Rightarrow> vec \<Rightarrow> error + rat" where
  "f1_score y_true y_pred =
     and_then (binary_counts y_true y_pred) (\<lambda>(tp, fp, fn).
       Inr (if 2 * tp + fp + fn = 0 then 0 else of_nat (2 * tp) / of_nat (2 * tp + fp + fn)))"

definition recall_score :: "vec \<Rightarrow> vec \<Rightarrow> error + rat" where
  "recall_score y_true y_pred =
     and_then (binary_counts y_true y_pred) (\<lambda>(tp, fp, fn).
       Inr (if tp + fn = 0 then 0 else of_nat tp / of_nat (tp + fn)))"

definition precision_score :: "vec \<Rightarrow> vec \<Rightarrow> error + rat" where
  "precision_score y_true y_pred =
     and_then (binary_counts y_true y_pred) (\<lambda>(tp, fp, fn).
       Inr (if tp + fp = 0 then 0 else of_nat tp / of_nat (tp + fp)))"

section \<open>The first notebook as a state machine\<close>

text \<open>
  \<^verbatim>\<open>RF_Feature_Selection_7.ipynb\<close> is a sequence of cells over the variables of one
  kernel. The state below has one field per variable; a cell is a function from the
  state to the next state, or to the exception that ends the run.

  What the libraries compute is an input of the model, the record \<open>library\<close>: the file
  system behind \<^verbatim>\<open>pd.read_csv\<close>, the seeded generator, the fitted scaler, the fitted
  forest (of an abstract type \<open>'m\<close>), its predictions and importances, the grid
  search, and the wall-clock seconds each training call takes. \<^verbatim>\<open>time.time()\<close> reads
  a clock that the training calls advance; the time of the other statements is not
  tracked, since no timed interval of the notebook contains any of them.
\<close>

datatype attribute = Names "string list" | Feature nat

text \<open>
  A \<^verbatim>\<open>RandomForestClassifier\<close>: its two hyperparameters, the fitted trees
  (\<^verbatim>\<open>estimators_\<close>) and the attribute \<^verbatim>\<open>feature_names_in_\<close>, which the notebook
  assigns. (An Isabelle name cannot end in an underscore.)
\<close>

record 'm forest =
  n_estimators :: nat
  max_depth :: nat
  estimators :: "'m option"
  feature_names_in :: "attribute option"

definition RandomForestClassifier :: "nat \<Rightarrow> nat \<Rightarrow> 'm forest" where
  "RandomForestClassifier n d =
     \<lparr>n_estimators = n, max_depth = d, estimators = None, feature_names_in = None\<rparr>"

datatype training_call =
    Cell5_fit
  | Cell6_fit_all_features
  | Cell6_fit_selected
  | Cell7_grid_search
  | Cell7_fit_best

text \<open>
  The estimators the second notebook builds: a decision tree, a bagging ensemble of
  decision trees, a random forest (each with its number of estimators), and the
  pipeline of a PCA (its number of components) and a random forest.
\<close>

datatype estimator =
    DecisionTree
  | Bagging nat
  | RandomForest nat
  | PCA_RandomForest nat nat

record 'm library =
  read_csv :: "string \<Rightarrow> error + dataframe"
  arrangement :: rng
  scaler_fit :: "matrix \<Rightarrow> error + vec \<times> vec"
  fit :: "'m forest \<Rightarrow> matrix \<Rightarrow> vec \<Rightarrow> error + 'm forest"
  predict :: "'m forest \<Rightarrow> matrix \<Rightarrow> error + vec"
  feature_importances :: "'m forest \<Rightarrow> error + vec"
  grid_search_fit :: "matrix \<Rightarrow> vec \<Rightarrow> error + (nat \<times> nat) \<times> rat"
  seconds :: "training_call \<Rightarrow> rat"
  fit_estimator :: "estimator \<Rightarrow> dataframe \<Rightarrow> series \<Rightarrow> error + 'm"
  predict_estimator :: "'m \<Rightarrow> dataframe \<Rightarrow> error + vec"
  estimator_seconds :: "estimator \<Rightarrow> rat"

text \<open>What a cell prints or plots, in order.\<close>

datatype printed =
    Text string
  | Number string rat
  | Count string nat
  | Class_counts string "(rat \<times> nat) list"
  | Confusion string "nat list list"
  | Head "(nat \<times> vec) list"
  | Feature_line nat rat
  | Params string "nat \<times> nat"
  | Figure "nat list" vec
  | Shape string "nat \<times> nat"
  | Training_time nat rat
  | Model_confusion nat "nat list list"
  | Scores string vec

text \<open>
  Cell 3 binds \<^verbatim>\<open>X_train\<close> and \<^verbatim>\<open>X_test\<close> to tables and cell 4 rebinds them to the
  scaled arrays: the tables are the fields \<open>X_train_frame\<close> and \<open>X_test_frame\<close>, the
  arrays \<open>X_train\<close> and \<open>X_test\<close>.
\<close>

record 'm notebook =
  clock :: rat
  out :: "printed list"
  df :: dataframe
  nn :: nat
  X :: dataframe
  y :: series
  X_train_frame :: dataframe
  X_test_frame :: dataframe
  y_train :: series
  y_test :: series
  scaler :: "vec \<times> vec"
  X_train :: matrix
  X_test :: matrix
  rf :: "'m forest"
  start_time :: rat
  end_time :: rat
  y_pred :: vec
  accuracy :: rat
  f1 :: rat
  confusion :: "nat list list"
  exce :: rat
  importances :: vec
  indices :: "nat list"
  cum_important :: vec
  selected_features :: "nat list"
  Xtrain_sel :: matrix
  X_test_selected :: matrix
  execution_time :: rat
  best_params :: "nat \<times> nat"
  best_score :: rat
  rf_best :: "'m forest"

text \<open>A training call takes its seconds of wall-clock time.\<close>

definition elapse :: "rat \<Rightarrow> 'm notebook \<Rightarrow> 'm notebook" where
  "elapse d s = s\<lparr>clock := clock s + d\<rparr>"

definition print :: "printed list \<Rightarrow> 'm notebook \<Rightarrow> 'm notebook" where
  "print items s = s\<lparr>out := out s @ items\<rparr>"

text \<open>\<^verbatim>\<open>Series.value_counts()\<close>: every distinct value with its count, most frequent first.\<close>

definition value_counts :: "vec \<Rightarrow> (rat \<times> nat) list" where
  "value_counts v =
     rev (sort_key snd (map (\<lambda>c. (c, count_list v c)) (remdups v)))"

text \<open>\<^verbatim>\<open>d.values\<close>: the entries of a table or of a Series without the labels.\<close>

definition frame_values :: "dataframe \<Rightarrow> matrix" where
  "frame_values d = map snd (rows d)"

definition series_values :: "series \<Rightarrow> vec" where
  "series_values v = map snd v"

text \<open>
  \<^verbatim>\<open>StandardScaler.transform\<close>: every entry minus its column's mean, divided by its
  column's scale. The row order is kept.
\<close>

definition transform :: "vec \<times> vec \<Rightarrow> matrix \<Rightarrow> matrix" where
  "transform sc M =
     map (\<lambda>row. map (\<lambda>(v, mean, scale). (v - mean) / scale) (zip row (zip (fst sc) (snd sc)))) M"

text \<open>
  Cell 2:
  \<^verbatim>\<open>
  df = pd.read_csv("IP_Activity_Dataset_5000.csv")
  print("# of observations:", len(df))
  print("# of variables:", df.shape[1])
  print("Observations for each class in 'label':\n", df['label'].value_counts())
  nn = df.shape[1]
  print(df.head())
  \<close>
\<close>

definition cell2 :: "'m library \<Rightarrow> 'm notebook \<Rightarrow> error + 'm notebook" where
  "cell2 lib s =
     and_then (read_csv lib ''IP_Activity_Dataset_5000.csv'') (\<lambda>d.
     and_then (get_column ''label'' d) (\<lambda>label.
     Inr (print [Count ''# of observations:'' (length (rows d)),
                 Count ''# of variables:'' (length (columns d)),
                 Class_counts ''Observations for each class in label:''
                   (value_counts (series_values label)),
                 Head (take 5 (rows d))]
            (s\<lparr>df := d, nn := length (columns d)\<rparr>))))"

text \<open>
  Cell 3:
  \<^verbatim>\<open>
  X = df.drop('label', axis=1)
  y = df['label']
  X_train, X_test, y_train, y_test = train_test_split(X, y, test_size=0.5, stratify=y, random_state=42)
  \<close>
\<close>

definition cell3 :: "'m library \<Rightarrow> 'm notebook \<Rightarrow> error + 'm notebook" where
  "cell3 lib s =
     and_then (drop_column ''label'' (df s)) (\<lambda>features.
     and_then (get_column ''label'' (df s)) (\<lambda>labels.
     and_then (train_test_split (arrangement lib) features labels (1 / 2) True)
       (\<lambda>(train, test, train_labels, test_labels).
     Inr (s\<lparr>X := features, y := labels,
            X_train_frame := train, X_test_frame := test,
            y_train := train_labels, y_test := test_labels\<rparr>))))"

text \<open>
  Cell 4:
  \<^verbatim>\<open>
  scaler = StandardScaler()
  X_train = scaler.fit_transform(X_train)
  X_test = scaler.transform(X_test)
  \<close>
\<close>

definition cell4 :: "'m library \<Rightarrow> 'm notebook \<Rightarrow> error + 'm notebook" where
  "cell4 lib s =
     and_then (scaler_fit lib (frame_values (X_train_frame s))) (\<lambda>fitted.
     Inr (s\<lparr>scaler := fitted,
            X_train := transform fitted (frame_values (X_train_frame s)),
            X_test := transform fitted (frame_values (X_test_frame s))\<rparr>))"

text \<open>
  Cell 5:
  \<^verbatim>\<open>
  rf = RandomForestClassifier(n_estimators=5, max_depth=5, random_state=42)
  start_time = time.time()
  rf.fit(X_train, y_train)
  end_time = time.time()
  y_pred = rf.predict(X_test)
  accuracy = accuracy_score(y_test, y_pred)
  f1 = f1_score(y_test, y_pred)
  confusion = confusion_matrix(y_test, y_pred)
  exce = end_time - start_time
  print("Accuracy:", accuracy)
  print("\nF1-score:", f1)
  print("\nConfusion matrix:\n", confusion)
  print("\nExecution time:", exce)
  \<close>
\<close>

definition cell5 :: "'m library \<Rightarrow> 'm notebook \<Rightarrow> error + 'm notebook" where
  "cell5 lib s =
     (let s1 = s\<lparr>rf := RandomForestClassifier 5 5\<rparr>;
          s2 = s1\<lparr>start_time := clock s1\<rparr>
      in and_then (fit lib (rf s2) (X_train s2) (series_values (y_train s2))) (\<lambda>fitted.
         let s3 = (elapse (seconds lib Cell5_fit) s2)\<lparr>rf := fitted\<rparr>;
             s4 = s3\<lparr>end_time := clock s3\<rparr>
         in and_then (predict lib (rf s4) (X_test s4)) (\<lambda>predicted.
            and_then (accuracy_score (series_values (y_test s4)) predicted) (\<lambda>acc.
            and_then (f1_score (series_values (y_test s4)) predicted) (\<lambda>f.
            and_then (confusion_matrix (series_values (y_test s4)) predicted) (\<lambda>cm.
            Inr (print [Number ''Accuracy:'' acc, Number ''F1-score:'' f,
                        Confusion ''Confusion matrix:'' cm,
                        Number ''Execution time:'' (end_time s4 - start_time s4)]
                   (s4\<lparr>y_pred := predicted, accuracy := acc, f1 := f, confusion := cm,
                       exce := end_time s4 - start_time s4\<rparr>))))))))"

text \<open>
  The print loop of cell 6 has the attribute \<^verbatim>\<open>rf.feature_names_in_\<close> as its loop
  variable: every round assigns the next selected feature to it.
  \<^verbatim>\<open>
  for rf.feature_names_in_ in selected_features:
      print(f"Feature {rf.feature_names_in_}: {importances[rf.feature_names_in_]}")
  \<close>
\<close>

fun print_loop :: "nat list \<Rightarrow> 'm notebook \<Rightarrow> 'm notebook" where
  "print_loop [] s = s"
| "print_loop (feature # rest) s =
     print_loop rest
       (print [Feature_line feature (importances s ! feature)]
          (s\<lparr>rf := (rf s)\<lparr>feature_names_in := Some (Feature feature)\<rparr>\<rparr>))"

text \<open>
  Cell 6, up to the end of the print loop:
  \<^verbatim>\<open>
  rf = RandomForestClassifier(n_estimators=10, max_depth=10, random_state=42)
  rf.fit(X_train, y_train)
  importances = rf.feature_importances_
  indices = np.argsort(importances)[::-1]
  cum_important = np.cumsum(importances[indices])
  selected_features = [feature for feature, cumulative_importance
                       in zip(indices, cum_important) if cumulative_importance <= 0.9]
  rf.feature_names_in_ = [df.columns[i] for i in range(X_train.shape[1])]
  plt.figure(figsize=(7, 3))
  plt.barh(range(X_train.shape[1]), importances[indices], )
  plt.yticks(range(X_train.shape[1]), indices)
  ...
  plt.show()
  print("Selected features and their importance scores:\n")
  for rf.feature_names_in_ in selected_features: ...
  \<close>
  The list of column names raises IndexError when the array has more columns than the
  table; the bar chart raises ValueError when the importances are not one per column.
\<close>

definition cell6_select :: "'m library \<Rightarrow> 'm notebook \<Rightarrow> error + 'm notebook" where
  "cell6_select lib s =
     (let s1 = s\<lparr>rf := RandomForestClassifier 10 10\<rparr>
      in and_then (fit lib (rf s1) (X_train s1) (series_values (y_train s1))) (\<lambda>fitted.
         let s2 = (elapse (seconds lib Cell6_fit_all_features) s1)\<lparr>rf := fitted\<rparr>
         in and_then (feature_importances lib (rf s2)) (\<lambda>imp.
            let s3 = s2\<lparr>importances := imp, indices := indices_of imp,
                        cum_important := cum_important_of imp,
                        selected_features := selected_features_of imp\<rparr>
            in if length (columns (df s3)) < n_columns (X_train s3) then Inl IndexError
               else
                 let s4 = s3\<lparr>rf := (rf s3)\<lparr>feature_names_in :=
                               Some (Names (take (n_columns (X_train s3)) (columns (df s3))))\<rparr>\<rparr>
                 in if length (importances s4) \<noteq> n_columns (X_train s4) then Inl ValueError
                    else
                      Inr (print_loop (selected_features s4)
                             (print [Figure (indices s4)
                                       (take_idx (importances s4) (indices s4)),
                                     Text ''Selected features and their importance scores:'']
                                s4)))))"

text \<open>
  Cell 6, after the print loop:
  \<^verbatim>\<open>
  Xtrain_sel = X_train[:, selected_features]
  X_test_selected = X_test[:, selected_features]
  start_time = time.time()
  rf.fit(Xtrain_sel, y_train)
  end_time = time.time()
  y_pred = rf.predict(X_test_selected)
  accuracy = accuracy_score(y_test, y_pred)
  f1 = f1_score(y_test, y_pred)
  confusion = confusion_matrix(y_test, y_pred)
  execution_time = end_time - start_time
  print("\nAccuracy:", accuracy)
  print("\nF1-score:", f1)
  print("\nConfusion matrix:\n", confusion)
  print("\nTime Execution:", execution_time)
  \<close>
\<close>

definition cell6_refit :: "'m library \<Rightarrow> 'm notebook \<Rightarrow> error + 'm notebook" where
  "cell6_refit lib s =
     (let s1 = s\<lparr>Xtrain_sel := select_columns (X_train s) (selected_features s),
                  X_test_selected := select_columns (X_test s) (selected_features s)\<rparr>;
          s2 = s1\<lparr>start_time := clock s1\<rparr>
      in and_then (fit lib (rf s2) (Xtrain_sel s2) (series_values (y_train s2))) (\<lambda>fitted.
         let s3 = (elapse (seconds lib Cell6_fit_selected) s2)\<lparr>rf := fitted\<rparr>;
             s4 = s3\<lparr>end_time := clock s3\<rparr>
         in and_then (predict lib (rf s4) (X_test_selected s4)) (\<lambda>predicted.
            and_then (accuracy_score (series_values (y_test s4)) predicted) (\<lambda>acc.
            and_then (f1_score (series_values (y_test s4)) predicted) (\<lambda>f.
            and_then (confusion_matrix (series_values (y_test s4)) predicted) (\<lambda>cm.
            Inr (print [Number ''Accuracy:'' acc, Number ''F1-score:'' f,
                        Confusion ''Confusion matrix:'' cm,
                        Number ''Time Execution:'' (end_time s4 - start_time s4)]
                   (s4\<lparr>y_pred := predicted, accuracy := acc, f1 := f, confusion := cm,
                       execution_time := end_time s4 - start_time s4\<rparr>))))))))"

definition cell6 :: "'m library \<Rightarrow> 'm notebook \<Rightarrow> error + 'm notebook" where
  "cell6 lib s = and_then (cell6_select lib s) (cell6_refit lib)"

text \<open>
  Cell 7:
  \<^verbatim>\<open>
  param_grid = {'n_estimators': [10, 20], 'max_depth': [10, 20]}
  grid_search = GridSearchCV(RandomForestClassifier(random_state=42), param_grid, cv=3)
  start_time = time.time()
  grid_search.fit(Xtrain_sel, y_train)
  end_time = time.time()
  print("Optimal hyperparameters:", grid_search.best_params_)
  print("Optimal cross-validation score:", grid_search.best_score_)
  rf_best = RandomForestClassifier(n_estimators=10,max_depth=10, random_state=42)
  rf_best.fit(Xtrain_sel, y_train)
  y_pred = rf_best.predict(X_test_selected)
  accuracy = accuracy_score(y_test, y_pred)
  f1 = f1_score(y_test, y_pred)
  confusion = confusion_matrix(y_test, y_pred)
  execution_time = end_time - start_time
  print("\nAccuracy:", accuracy)
  print("\nF1-score:", f1)
  print("\nConfusion matrix:\n", confusion)
  print("\nExecution time:", execution_time)
  \<close>
\<close>

definition cell7 :: "'m library \<Rightarrow> 'm notebook \<Rightarrow> error + 'm notebook" where
  "cell7 lib s =
     (let s1 = s\<lparr>start_time := clock s\<rparr>
      in and_then (grid_search_fit lib (Xtrain_sel s1) (series_values (y_train s1)))
           (\<lambda>(params, score).
         let s2 = (elapse (seconds lib Cell7_grid_search) s1)
                    \<lparr>best_params := params, best_score := score\<rparr>;
             s3 = s2\<lparr>end_time := clock s2\<rparr>;
             s4 = print [Params ''Optimal hyperparameters:'' (best_params s3),
                         Number ''Optimal cross-validation score:'' (best_score s3)] s3;
             s5 = s4\<lparr>rf_best := RandomForestClassifier 10 10\<rparr>
         in and_then (fit lib (rf_best s5) (Xtrain_sel s5) (series_values (y_train s5)))
              (\<lambda>fitted.
            let s6 = (elapse (seconds lib Cell7_fit_best) s5)\<lparr>rf_best := fitted\<rparr>
            in and_then (predict lib (rf_best s6) (X_test_selected s6)) (\<lambda>predicted.
               and_then (accuracy_score (series_values (y_test s6)) predicted) (\<lambda>acc.
               and_then (f1_score (series_values (y_test s6)) predicted) (\<lambda>f.
               and_then (confusion_matrix (series_values (y_test s6)) predicted) (\<lambda>cm.
               Inr (print [Number ''Accuracy:'' acc, Number ''F1-score:'' f,
                           Confusion ''Confusion matrix:'' cm,
                           Number ''Execution time:'' (end_time s6 - start_time s6)]
                      (s6\<lparr>y_pred := predicted, accuracy := acc, f1 := f, confusion := cm,
                          execution_time := end_time s6 - start_time s6\<rparr>)))))))))"

text \<open>
  Running the notebook from top to bottom. A cell runs in the state its predecessor
  left; the first exception ends the run.
\<close>

fun run_cells :: "('s \<Rightarrow> error + 's) list \<Rightarrow> 's \<Rightarrow> error + 's" where
  "run_cells [] s = Inr s"
| "run_cells (cell # rest) s = and_then (cell s) (run_cells rest)"

definition notebook_cells :: "'m library \<Rightarrow> ('m notebook \<Rightarrow> error + 'm notebook) list" where
  "notebook_cells lib = [cell2 lib, cell3 lib, cell4 lib, cell5 lib, cell6 lib, cell7 lib]"

definition run_notebook :: "'m library \<Rightarrow> 'm notebook \<Rightarrow> error + 'm notebook" where
  "run_notebook lib s = run_cells (notebook_cells lib) s"

section \<open>The second notebook\<close>

text \<open>
  \<^verbatim>\<open>Pipeline_ML_6.ipynb\<close> reads the two tables at the top level and defines its
  functions; it calls none of them. A function that trains or prints takes the world
  (the clock and what has been printed so far) and returns it with its result.
\<close>

record pipeline =
  console :: "printed list"
  normalData :: dataframe
  anomalousData :: dataframe

definition shape :: "dataframe \<Rightarrow> nat \<times> nat" where
  "shape d = (length (rows d), length (columns d))"

text \<open>
  \<^verbatim>\<open>
  normalData = pd.read_csv('normal.csv')
  print(f'Shape of normal dataset: {normalData.shape}')
  \<close>
\<close>

definition load_normal :: "'m library \<Rightarrow> pipeline \<Rightarrow> error + pipeline" where
  "load_normal lib s =
     and_then (read_csv lib ''normal.csv'') (\<lambda>d.
     Inr (s\<lparr>normalData := d,
            console := console s @ [Shape ''Shape of normal dataset:'' (shape d)]\<rparr>))"

text \<open>
  \<^verbatim>\<open>
  anomalousData = pd.read_csv('anomalous.csv')
  print(f'Shape of anomalous dataset: {anomalousData.shape}')
  \<close>
\<close>

definition load_anomalous :: "'m library \<Rightarrow> pipeline \<Rightarrow> error + pipeline" where
  "load_anomalous lib s =
     and_then (read_csv lib ''anomalous.csv'') (\<lambda>d.
     Inr (s\<lparr>anomalousData := d,
            console := console s @ [Shape ''Shape of anomalous dataset:'' (shape d)]\<rparr>))"

definition run_pipeline :: "'m library \<Rightarrow> pipeline \<Rightarrow> error + pipeline" where
  "run_pipeline lib s = run_cells [load_normal lib, load_anomalous lib] s"

type_synonym world = "rat \<times> printed list"

definition tick :: "rat \<Rightarrow> world \<Rightarrow> world" where
  "tick d w = (fst w + d, snd w)"

definition say :: "printed \<Rightarrow> world \<Rightarrow> world" where
  "say item w = (fst w, snd w @ [item])"

text \<open>
  \<^verbatim>\<open>myDecisionTree\<close>, \<^verbatim>\<open>myBagging\<close>, \<^verbatim>\<open>myRandomForest\<close> and \<^verbatim>\<open>myPCARF\<close> build
  one estimator each, fit it to the training data and return it.
\<close>

definition build_and_fit :: "'m library \<Rightarrow> estimator \<Rightarrow> world \<Rightarrow> dataframe \<Rightarrow> series
    \<Rightarrow> error + 'm \<times> world" where
  "build_and_fit lib e w features labels =
     and_then (fit_estimator lib e features labels) (\<lambda>clf.
     Inr (clf, tick (estimator_seconds lib e) w))"

definition myDecisionTree :: "'m library \<Rightarrow> world \<Rightarrow> dataframe \<Rightarrow> series
    \<Rightarrow> error + 'm \<times> world" where
  "myDecisionTree lib = build_and_fit lib DecisionTree"

definition myBagging :: "'m library \<Rightarrow> world \<Rightarrow> dataframe \<Rightarrow> series
    \<Rightarrow> error + 'm \<times> world" where
  "myBagging lib = build_and_fit lib (Bagging 10)"

definition myRandomForest :: "'m library \<Rightarrow> world \<Rightarrow> dataframe \<Rightarrow> series
    \<Rightarrow> error + 'm \<times> world" where
  "myRandomForest lib = build_and_fit lib (RandomForest 10)"

definition myPCARF :: "'m library \<Rightarrow> world \<Rightarrow> dataframe \<Rightarrow> series
    \<Rightarrow> error + 'm \<times> world" where
  "myPCARF lib = build_and_fit lib (PCA_RandomForest 2 50)"

text \<open>
  The loop of \<^verbatim>\<open>myEvaluateSupervisedModelPerformance\<close>:
  \<^verbatim>\<open>
  for i, model_func in enumerate(model_funcs):
      start = time.time()
      model = model_func(X_train, y_train)
      end = time.time()
      print(f'Training time for model {i+1}: {end - start} seconds')
      y_pred = model.predict(X_test)
      recalls[i] = recall_score(y_test, y_pred)
      precisions[i] = precision_score(y_test, y_pred)
      f1_scores[i] = f1_score(y_test, y_pred)
      print(f'Confusion matrix for model {i+1}:\n{confusion_matrix(y_test, y_pred)}\n')
  \<close>
\<close>

fun evaluate_loop ::
  "'m library \<Rightarrow> (world \<Rightarrow> dataframe \<Rightarrow> series \<Rightarrow> error + 'm \<times> world) list \<Rightarrow> nat
     \<Rightarrow> dataframe \<Rightarrow> series \<Rightarrow> dataframe \<Rightarrow> series
     \<Rightarrow> vec \<times> vec \<times> vec \<Rightarrow> world \<Rightarrow> error + (vec \<times> vec \<times> vec) \<times> world" where
  "evaluate_loop lib [] i features labels test test_labels scores w = Inr (scores, w)"
| "evaluate_loop lib (model_func # rest) i features labels test test_labels scores w =
     (let start = fst w
      in and_then (model_func w features labels) (\<lambda>(model, w1).
         let finish = fst w1;
             w2 = say (Training_time (i + 1) (finish - start)) w1
         in and_then (predict_estimator lib model test) (\<lambda>predicted.
            and_then (recall_score (series_values test_labels) predicted) (\<lambda>r.
            and_then (precision_score (series_values test_labels) predicted) (\<lambda>p.
            and_then (f1_score (series_values test_labels) predicted) (\<lambda>f.
            and_then (confusion_matrix (series_values test_labels) predicted) (\<lambda>cm.
            evaluate_loop lib rest (i + 1) features labels test test_labels
              (case scores of (recalls, precisions, f1_scores) \<Rightarrow>
                 (recalls[i := r], precisions[i := p], f1_scores[i := f]))
              (say (Model_confusion (i + 1) cm) w2))))))))"

text \<open>
  \<^verbatim>\<open>myEvaluateSupervisedModelPerformance(X_train, y_train, X_test, y_test)\<close>: three
  models, each trained, timed and scored; the scores are printed and returned.
\<close>

definition print_scores :: "(vec \<times> vec \<times> vec) \<times> world \<Rightarrow> error + (vec \<times> vec \<times> vec) \<times> world" where
  "print_scores r =
     (case r of ((recalls, precisions, f1_scores), w) \<Rightarrow>
        Inr ((recalls, precisions, f1_scores),
             say (Scores ''F1 scores:'' f1_scores)
               (say (Scores ''Precisions:'' precisions)
                  (say (Scores ''Recalls:'' recalls) w))))"

definition myEvaluateSupervisedModelPerformance ::
  "'m library \<Rightarrow> world \<Rightarrow> dataframe \<Rightarrow> series \<Rightarrow> dataframe \<Rightarrow> series
     \<Rightarrow> error + (vec \<times> vec \<times> vec) \<times> world" where
  "myEvaluateSupervisedModelPerformance lib w features labels test test_labels =
     and_then
       (evaluate_loop lib [myDecisionTree lib, myBagging lib, myRandomForest lib] 0
          features labels test test_labels
          (replicate 3 0, replicate 3 0, replicate 3 0) w)
       print_scores"

text \<open>
  \<^verbatim>\<open>myEvaluateUnsupervisedModelPerformance\<close>: the same steps, once, for the pipeline of
  \<^verbatim>\<open>myPCARF\<close>; its prints carry no model number.
\<close>

definition myEvaluateUnsupervisedModelPerformance ::
  "'m library \<Rightarrow> world \<Rightarrow> dataframe \<Rightarrow> series \<Rightarrow> dataframe \<Rightarrow> series
     \<Rightarrow> error + (vec \<times> vec \<times> vec) \<times> world" where
  "myEvaluateUnsupervisedModelPerformance lib w features labels test test_labels =
     (let start = fst w
      in and_then (myPCARF lib w features labels) (\<lambda>(model, w1).
         let finish = fst w1;
             w2 = say (Number ''Training time for model:'' (finish - start)) w1
         in and_then (predict_estimator lib model test) (\<lambda>predicted.
            and_then (recall_score (series_values test_labels) predicted) (\<lambda>r.
            and_then (precision_score (series_values test_labels) predicted) (\<lambda>p.
            and_then (f1_score (series_values test_labels) predicted) (\<lambda>f.
            and_then (confusion_matrix (series_values test_labels) predicted) (\<lambda>cm.
            print_scores
              (((replicate 1 0)[0 := r], (replicate 1 0)[0 := p], (replicate 1 0)[0 := f]),
               say (Confusion ''Confusion matrix for model:'' cm) w2))))))))"

section \<open>A small concrete run\<close>

text \<open>
  A table of eight rows and a library whose generator lists the rows backwards, whose
  scaler leaves the entries as they are, whose forests predict the label 0 and give the
  first feature 5/8 of the importance, and whose grid search takes 254 milliseconds
  where a single fit takes 15. The theorems below are instantiated on it.
\<close>

definition example_table :: dataframe where
  "example_table =
     \<lparr>columns = [''requests'', ''nodes'', ''label''],
      rows = [(0, [18, 2, 0]), (1, [5, 1, 0]), (2, [1141, 5, 1]), (3, [80, 2, 0]),
              (4, [1, 1, 0]), (5, [7, 3, 1]), (6, [9, 2, 0]), (7, [11, 4, 1])]\<rparr>"

definition example_anomalous :: dataframe where
  "example_anomalous =
     \<lparr>columns = [''requests'', ''nodes'', ''label''],
      rows = [(0, [1141, 5, 1]), (1, [7, 3, 1])]\<rparr>"

definition backwards :: rng where
  "backwards labels n = rev [0..<n]"

definition example_library :: "nat library" where
  "example_library =
     \<lparr>read_csv = (\<lambda>name.
        if name = ''IP_Activity_Dataset_5000.csv'' \<or> name = ''normal.csv'' then Inr example_table
        else if name = ''anomalous.csv'' then Inr example_anomalous
        else Inl FileNotFoundError),
      arrangement = backwards,
      scaler_fit = (\<lambda>M. Inr (replicate (n_columns M) 0, replicate (n_columns M) 1)),
      fit = (\<lambda>forest M labels. Inr (forest\<lparr>estimators := Some (n_columns M)\<rparr>)),
      predict = (\<lambda>forest M. Inr (map (\<lambda>row. 0) M)),
      feature_importances = (\<lambda>forest.
        case estimators forest of None \<Rightarrow> Inl NotFittedError
        | Some k \<Rightarrow> Inr (take k [5 / 8, 3 / 8])),
      grid_search_fit = (\<lambda>M labels. Inr ((10, 10), 1)),
      seconds = (\<lambda>call. if call = Cell7_grid_search then 254 / 1000 else 15 / 1000),
      fit_estimator = (\<lambda>e features labels. Inr 0),
      predict_estimator = (\<lambda>model test. Inr (map (\<lambda>row. 0) (rows test))),
      estimator_seconds = (\<lambda>e. case e of DecisionTree \<Rightarrow> 1 | Bagging k \<Rightarrow> 2
                            | RandomForest k \<Rightarrow> 3 | PCA_RandomForest c k \<Rightarrow> 4)\<rparr>"

text \<open>
  Three variants of that library. In the first no file exists. In the second the
  forest gives the second feature 15/16 of the importance, and \<^verbatim>\<open>fit\<close> refuses a
  matrix without columns, as scikit-learn's does. In the third \<^verbatim>\<open>fit\<close> drops the
  attribute \<^verbatim>\<open>feature_names_in_\<close>, as scikit-learn's does when it is given an array
  without column names.
\<close>

definition missing_file_library :: "nat library" where
  "missing_file_library = example_library\<lparr>read_csv := (\<lambda>name. Inl FileNotFoundError)\<rparr>"

definition strict_library :: "nat library" where
  "strict_library =
     example_library\<lparr>
       fit := (\<lambda>forest M labels.
         if n_columns M = 0 then Inl ValueError
         else Inr (forest\<lparr>estimators := Some (n_columns M)\<rparr>)),
       feature_importances := (\<lambda>forest. Inr [1 / 16, 15 / 16])\<rparr>"

definition resetting_library :: "nat library" where
  "resetting_library =
     example_library\<lparr>fit := (\<lambda>forest M labels.
        Inr (forest\<lparr>estimators := Some (n_columns M), feature_names_in := None\<rparr>))\<rparr>"

text \<open>A kernel in which no cell has run yet.\<close>

definition fresh :: "nat notebook" where
  "fresh =
     \<lparr>clock = 0, out = [], df = \<lparr>columns = [], rows = []\<rparr>, nn = 0,
      X = \<lparr>columns = [], rows = []\<rparr>, y = [],
      X_train_frame = \<lparr>columns = [], rows = []\<rparr>, X_test_frame = \<lparr>columns = [], rows = []\<rparr>,
      y_train = [], y_test = [], scaler = ([], []), X_train = [], X_test = [],
      rf = RandomForestClassifier 0 0, start_time = 0, end_time = 0, y_pred = [],
      accuracy = 0, f1 = 0, confusion = [], exce = 0, importances = [], indices = [],
      cum_important = [], selected_features = [], Xtrain_sel = [], X_test_selected = [],
      execution_time = 0, best_params = (0, 0), best_score = 0,
      rf_best = RandomForestClassifier 0 0\<rparr>"

definition fresh_pipeline :: pipeline where
  "fresh_pipeline =
     \<lparr>console = [], normalData = \<lparr>columns = [], rows = []\<rparr>,
      anomalousData = \<lparr>columns = [], rows = []\<rparr>\<rparr>"

section \<open>Sequencing and the split: auxiliary facts\<close>

lemma and_then_Inr:
  "and_then m f = Inr r \<longleftrightarrow> (\<exists>v. m = Inr v \<and> f v = Inr r)"
  by (cases m) (simp_all add: and_then_def)

lemma and_then_Inl:
  "and_then m f = Inl e \<longleftrightarrow> m = Inl e \<or> (\<exists>v. m = Inr v \<and> f v = Inl e)"
  by (cases m) (simp_all add: and_then_def)

lemma mset_take_idx:
  assumes "mset perm = mset [0..<length xs]"
  shows "mset (take_idx xs perm) = mset xs"
proof -
  have "mset (take_idx xs perm) = image_mset (\<lambda>i. xs ! i) (mset perm)"
    by (simp add: take_idx_def)
  also have "\<dots> = mset (map (\<lambda>i. xs ! i) [0..<length xs])"
    using assms by simp
  also have "\<dots> = mset xs" by (simp add: map_nth)
  finally show ?thesis .
qed

lemma mset_take_idx_split:
  assumes "mset perm = mset [0..<length xs]"
  shows "mset (take_idx xs (drop k perm)) + mset (take_idx xs (take k perm)) = mset xs"
proof -
  have "take_idx xs (take k perm) @ take_idx xs (drop k perm) = take_idx xs perm"
    by (simp add: take_idx_def flip: map_append)
  then have "mset (take_idx xs (take k perm)) + mset (take_idx xs (drop k perm))
        = mset (take_idx xs perm)"
    by (metis mset_append)
  then show ?thesis using mset_take_idx [OF assms] by (simp add: add.commute)
qed

lemma length_arrangement:
  "is_arrangement arr \<Longrightarrow> length (arr l n) = n"
  unfolding is_arrangement_def by (metis mset_eq_length length_upt diff_zero)

lemma validate_shuffle_split_Inr:
  "validate_shuffle_split n t = Inr (n_train, n_test) \<Longrightarrow>
     n_test = nat \<lceil>t * of_nat n\<rceil> \<and> n_train = n - n_test \<and> 0 < n_train \<and> n_test < n"
  by (auto simp: validate_shuffle_split_def Let_def split: if_splits)

lemma train_test_split_parts:
  assumes arr: "is_arrangement arr"
    and ok: "train_test_split arr F L t s = Inr (a, b, c, d)"
  shows "length (rows b) = nat \<lceil>t * (of_nat (length (rows F)) :: rat)\<rceil>"
    and "length (rows a) + length (rows b) = length (rows F)"
    and "mset (rows a) + mset (rows b) = mset (rows F)"
    and "mset c + mset d = mset L"
    and "length c = length (rows a)" and "length d = length (rows b)"
    and "columns a = columns F" and "columns b = columns F"
    and "0 < length (rows a)"
proof -
  let ?n = "length (rows F)"
  from ok have len: "length L = ?n"
    by (auto simp: train_test_split_def split: if_splits)
  from ok len obtain n_train n_test where
    v: "validate_shuffle_split ?n t = Inr (n_train, n_test)"
    by (auto simp: train_test_split_def and_then_Inr)
  note vs = validate_shuffle_split_Inr [OF v]
  define perm where "perm = arr (if s then Some (map snd L) else None) ?n"
  have lp: "length perm = ?n" unfolding perm_def by (rule length_arrangement [OF arr])
  have mp: "mset perm = mset [0..<?n]" using arr unfolding perm_def is_arrangement_def by blast
  have tk: "take n_train (drop n_test perm) = drop n_test perm"
    using vs lp by simp
  from ok len v have res:
    "a = F\<lparr>rows := take_idx (rows F) (drop n_test perm)\<rparr>"
    "b = F\<lparr>rows := take_idx (rows F) (take n_test perm)\<rparr>"
    "c = take_idx L (drop n_test perm)"
    "d = take_idx L (take n_test perm)"
    by (auto simp: train_test_split_def and_then_Inr Let_def perm_def [symmetric] tk
        split: if_splits)
  show "length (rows b) = nat \<lceil>t * of_nat ?n\<rceil>"
    using vs lp by (simp add: res take_idx_def)
  show "length (rows a) + length (rows b) = ?n"
    using vs lp by (simp add: res take_idx_def)
  show "mset (rows a) + mset (rows b) = mset (rows F)"
    using mset_take_idx_split [of perm "rows F" n_test] mp by (simp add: res)
  show "mset c + mset d = mset L"
    using mset_take_idx_split [of perm L n_test] mp len by (simp add: res)
  show "length c = length (rows a)" "length d = length (rows b)"
    by (simp_all add: res take_idx_def)
  show "columns a = columns F" "columns b = columns F" by (simp_all add: res)
  show "0 < length (rows a)" using vs lp by (simp add: res take_idx_def)
qed

lemma train_test_split_returns:
  assumes "length (rows F) = length L" and "0 < t" and "t < 1"
    and "nat \<lceil>t * of_nat (length (rows F))\<rceil> < length (rows F)"
  shows "\<exists>r. train_test_split arr F L t False = Inr r"
  using assms
  by (simp add: train_test_split_def validate_shuffle_split_def and_then_def Let_def)

lemma n_test_three_tenths:
  fixes n :: nat
  defines "t \<equiv> nat \<lceil>3 / 10 * (of_nat n :: rat)\<rceil>"
  shows "3 * n \<le> 10 * t" and "10 * t < 3 * n + 10" and "t \<le> n" and "2 \<le> n \<Longrightarrow> t < n"
proof -
  define x :: rat where "x = 3 / 10 * of_nat n"
  define k where "k = \<lceil>x\<rceil>"
  have "x \<le> of_int k" and "of_int k - 1 < x"
    using ceiling_correct [of x] by (simp_all add: k_def)
  then have "(of_int (3 * int n) :: rat) \<le> of_int (10 * k)"
    and "(of_int (10 * k) :: rat) < of_int (3 * int n + 10)"
    by (simp_all add: x_def)
  then have k: "3 * int n \<le> 10 * k" "10 * k < 3 * int n + 10"
    by (simp_all only: of_int_le_iff of_int_less_iff)
  have "t = nat k" by (simp only: t_def k_def x_def)
  moreover have "0 \<le> k" using k by linarith
  ultimately have "int t = k" by simp
  with k have i: "3 * int n \<le> 10 * int t" "10 * int t < 3 * int n + 10" by simp_all
  show "3 * n \<le> 10 * t" using i by linarith
  show "10 * t < 3 * n + 10" using i by linarith
  show "t \<le> n" using i by linarith
  show "2 \<le> n \<Longrightarrow> t < n" using i by linarith
qed

lemma cross_bound:
  fixes nN nA tN tA :: nat
  assumes N: "3 * nN \<le> 10 * tN" "10 * tN < 3 * nN + 10" "tN \<le> nN"
    and A: "3 * nA \<le> 10 * tA" "10 * tA < 3 * nA + 10" "tA \<le> nA"
  shows "(nN - tN) * tA \<le> (nA - tA) * tN + max nN nA"
proof -
  define rN rA :: int where "rN = 10 * int tN - 3 * int nN" and "rA = 10 * int tA - 3 * int nA"
  have r: "0 \<le> rN" "rN \<le> 9" "0 \<le> rA" "rA \<le> 9"
    using N A by (simp_all add: rN_def rA_def)
  have e1: "10 * int (nN - tN) = 7 * int nN - rN" using N(3) by (simp add: rN_def)
  have e2: "10 * int tA = 3 * int nA + rA" by (simp add: rA_def)
  have e3: "10 * int (nA - tA) = 7 * int nA - rA" using A(3) by (simp add: rA_def)
  have e4: "10 * int tN = 3 * int nN + rN" by (simp add: rN_def)
  have "100 * (int (nN - tN) * int tA) = (10 * int (nN - tN)) * (10 * int tA)" by simp
  also have "\<dots> = (7 * int nN - rN) * (3 * int nA + rA)" by (simp only: e1 e2)
  finally have l: "100 * (int (nN - tN) * int tA) = (7 * int nN - rN) * (3 * int nA + rA)" .
  have "100 * (int (nA - tA) * int tN) = (10 * int (nA - tA)) * (10 * int tN)" by simp
  also have "\<dots> = (7 * int nA - rA) * (3 * int nN + rN)" by (simp only: e3 e4)
  finally have rr: "100 * (int (nA - tA) * int tN) = (7 * int nA - rA) * (3 * int nN + rN)" .
  have "100 * (int (nN - tN) * int tA) - 100 * (int (nA - tA) * int tN)
        = 10 * (int nN * rA) - 10 * (int nA * rN)"
    unfolding l rr by (simp add: algebra_simps)
  moreover have "int nN * rA \<le> int nN * 9" using r by (intro mult_left_mono) simp_all
  moreover have "0 \<le> int nA * rN" using r by simp
  ultimately have "100 * (int (nN - tN) * int tA) - 100 * (int (nA - tA) * int tN)
        \<le> 90 * int nN" by linarith
  then have "int (nN - tN) * int tA \<le> int (nA - tA) * int tN + int (max nN nA)"
    by (simp add: max_def)
  then have "int ((nN - tN) * tA) \<le> int ((nA - tA) * tN + max nN nA)"
    by (simp only: of_nat_mult of_nat_add)
  then show ?thesis by (simp only: of_nat_le_iff)
qed

lemma cross_exact:
  fixes nN nA tN tA :: nat
  assumes "10 * tN = 3 * nN" "10 * tA = 3 * nA"
  shows "(nN - tN) * tA = (nA - tA) * tN"
proof -
  have le: "tN \<le> nN" "tA \<le> nA" using assms by simp_all
  have e1: "10 * int (nN - tN) = 7 * int nN" using assms(1) le by simp
  have e3: "10 * int (nA - tA) = 7 * int nA" using assms(2) le by simp
  have e2: "10 * int tA = 3 * int nA" using assms(2) by simp
  have e4: "10 * int tN = 3 * int nN" using assms(1) by simp
  have "100 * (int (nN - tN) * int tA) = (10 * int (nN - tN)) * (10 * int tA)" by simp
  also have "\<dots> = (10 * int (nA - tA)) * (10 * int tN)"
    unfolding e1 e2 e3 e4 by simp
  also have "\<dots> = 100 * (int (nA - tA) * int tN)" by simp
  finally have "int (nN - tN) * int tA = int (nA - tA) * int tN" by simp
  then have "int ((nN - tN) * tA) = int ((nA - tA) * tN)" by (simp only: of_nat_mult)
  then show ?thesis by (simp only: of_nat_eq_iff)
qed

lemma exact_three_tenths:
  fixes n t :: nat
  assumes "3 * n \<le> 10 * t" and "10 * t < 3 * n + 10" and "10 dvd n"
  shows "10 * t = 3 * n"
proof -
  from assms(3) obtain j where j: "n = 10 * j" by (auto elim!: dvdE)
  have "3 * j \<le> t" using assms(1) by (simp add: j)
  moreover have "t < 3 * j + 1" using assms(2) by (simp add: j)
  ultimately show ?thesis by (simp add: j)
qed

lemma myTrainTestSplit_Inr:
  assumes "myTrainTestSplit arr N A = Inr (Xtr, Xte, ytr, yte)"
  obtains yN yA a b c d a' b' c' d' where
    "iloc_last N = Inr yN" and "iloc_last A = Inr yA"
    and "train_test_split arr (iloc_but_last N) yN (3 / 10) False = Inr (a, b, c, d)"
    and "train_test_split arr (iloc_but_last A) yA (3 / 10) False = Inr (a', b', c', d')"
    and "Xtr = concat_frames a a'" and "Xte = concat_frames b b'"
    and "ytr = concat_series c c'" and "yte = concat_series d d'"
  using assms
  by (auto simp: myTrainTestSplit_def and_then_Inr Let_def split: prod.splits)

lemma length_iloc_last: "iloc_last d = Inr s \<Longrightarrow> length s = length (rows d)"
  by (auto simp: iloc_last_def split: if_splits)

lemma rows_iloc_but_last [simp]: "length (rows (iloc_but_last d)) = length (rows d)"
  by (simp add: iloc_but_last_def)

lemma myTrainTestSplit_returns:
  assumes "columns N \<noteq> []" and "columns A \<noteq> []"
    and "2 \<le> length (rows N)" and "2 \<le> length (rows A)"
  shows "\<exists>r. myTrainTestSplit arr N A = Inr r"
proof -
  obtain yN where yN: "iloc_last N = Inr yN" using assms(1) by (simp add: iloc_last_def)
  obtain yA where yA: "iloc_last A = Inr yA" using assms(2) by (simp add: iloc_last_def)
  have "\<exists>r. train_test_split arr (iloc_but_last N) yN (3 / 10) False = Inr r"
    using length_iloc_last [OF yN] n_test_three_tenths(4) [OF assms(3)]
    by (intro train_test_split_returns) simp_all
  then obtain a b c d where
    sN: "train_test_split arr (iloc_but_last N) yN (3 / 10) False = Inr (a, b, c, d)"
    by (metis prod_cases4)
  have "\<exists>r. train_test_split arr (iloc_but_last A) yA (3 / 10) False = Inr r"
    using length_iloc_last [OF yA] n_test_three_tenths(4) [OF assms(4)]
    by (intro train_test_split_returns) simp_all
  then obtain a' b' c' d' where
    sA: "train_test_split arr (iloc_but_last A) yA (3 / 10) False = Inr (a', b', c', d')"
    by (metis prod_cases4)
  show ?thesis
    by (simp add: myTrainTestSplit_def and_then_def Let_def yN yA sN sA)
qed

section \<open>Counting the confusion matrix: auxiliary facts\<close>

lemma concat_map_product:
  "concat (map (\<lambda>t. map (\<lambda>p. f (t, p)) M) L) = map f (List.product L M)"
  by (induction L) (simp_all add: comp_def)

lemma sum_count_list_distinct:
  assumes "distinct L" and "set zs \<subseteq> set L"
  shows "sum_list (map (count_list zs) L) = length zs"
proof -
  have "sum_list (map (count_list zs) L) = sum (count_list zs) (set L)"
    using assms(1) by (simp add: sum_list_distinct_conv_sum_set)
  also have "\<dots> = length zs" using assms(2) by (simp add: sum_count_set)
  finally show ?thesis .
qed

lemma confusion_matrix_total:
  assumes "length ts = length ps"
  shows "\<exists>m. confusion_matrix ts ps = Inr m \<and> sum_list (cells m) = length ts
           \<and> length (cells m) = length (unique_labels ts ps) * length (unique_labels ts ps)"
proof -
  let ?L = "unique_labels ts ps"
  let ?m = "map (\<lambda>t. map (\<lambda>p. count_list (zip ts ps) (t, p)) ?L) ?L"
  have m: "confusion_matrix ts ps = Inr ?m"
    using assms by (simp add: confusion_matrix_def Let_def)
  have c: "cells ?m = map (count_list (zip ts ps)) (List.product ?L ?L)"
    unfolding cells_def by (rule concat_map_product)
  have d: "distinct (List.product ?L ?L)"
    by (simp add: unique_labels_def distinct_product)
  have s: "set (zip ts ps) \<subseteq> set (List.product ?L ?L)"
    by (auto simp: unique_labels_def dest: set_zip_leftD set_zip_rightD)
  have "sum_list (cells ?m) = length (zip ts ps)"
    unfolding c by (rule sum_count_list_distinct [OF d s])
  moreover have "length (cells ?m) = length ?L * length ?L"
    unfolding c by simp
  ultimately show ?thesis using m assms by simp
qed

lemma unique_labels_binary:
  assumes "set ts \<union> set ps \<subseteq> {0, 1}"
  shows "length (unique_labels ts ps) \<le> 2"
    and "0 \<in> set ts \<union> set ps \<Longrightarrow> 1 \<in> set ts \<union> set ps \<Longrightarrow> unique_labels ts ps = [0, 1]"
proof -
  have u: "unique_labels ts ps = sorted_list_of_set (set ts \<union> set ps)"
    using sorted_list_of_set_sort_remdups [of "ts @ ps"] by (simp add: unique_labels_def)
  have "card (set ts \<union> set ps) \<le> card {0, 1 :: rat}"
    using assms by (intro card_mono) simp_all
  then show "length (unique_labels ts ps) \<le> 2" by (simp add: u)
  assume "0 \<in> set ts \<union> set ps" "1 \<in> set ts \<union> set ps"
  with assms have "set ts \<union> set ps = {0, 1}" by blast
  then show "unique_labels ts ps = [0, 1]" by (simp add: u)
qed

section \<open>What each cell leaves unchanged\<close>

lemma print_loop_frame:
  "df (print_loop fs s) = df s"
  "y_train (print_loop fs s) = y_train s"
  "y_test (print_loop fs s) = y_test s"
  "X_train_frame (print_loop fs s) = X_train_frame s"
  "X_test_frame (print_loop fs s) = X_test_frame s"
  "X_train (print_loop fs s) = X_train s"
  "X_test (print_loop fs s) = X_test s"
  "scaler (print_loop fs s) = scaler s"
  "importances (print_loop fs s) = importances s"
  "selected_features (print_loop fs s) = selected_features s"
  "clock (print_loop fs s) = clock s"
  by (induction fs arbitrary: s; simp add: print_def)+

lemma print_loop_attribute:
  "feature_names_in (rf (print_loop fs s)) =
     (if fs = [] then feature_names_in (rf s) else Some (Feature (last fs)))"
  by (induction fs arbitrary: s) (simp_all add: print_def)

lemma cell4_frame:
  assumes "cell4 lib s = Inr s'"
  shows "df s' = df s" "y_train s' = y_train s" "y_test s' = y_test s"
    "X_train_frame s' = X_train_frame s" "X_test_frame s' = X_test_frame s"
    "X_train s' = transform (scaler s') (frame_values (X_train_frame s'))"
    "X_test s' = transform (scaler s') (frame_values (X_test_frame s'))"
  using assms by (auto simp: cell4_def and_then_Inr)

lemma cell5_frame:
  assumes "cell5 lib s = Inr s'"
  shows "df s' = df s" "y_train s' = y_train s" "y_test s' = y_test s"
    "X_train_frame s' = X_train_frame s" "X_test_frame s' = X_test_frame s"
    "X_train s' = X_train s" "X_test s' = X_test s" "scaler s' = scaler s"
  using assms by (auto simp: cell5_def and_then_Inr Let_def print_def elapse_def)

lemma cell6_select_frame:
  assumes "cell6_select lib s = Inr s'"
  shows "df s' = df s" "y_train s' = y_train s" "y_test s' = y_test s"
    "X_train_frame s' = X_train_frame s" "X_test_frame s' = X_test_frame s"
    "X_train s' = X_train s" "X_test s' = X_test s" "scaler s' = scaler s"
    "selected_features s' = selected_features_of (importances s')"
  using assms
  by (auto simp: cell6_select_def and_then_Inr Let_def print_def elapse_def print_loop_frame
      split: if_splits)

lemma cell6_refit_frame:
  assumes "cell6_refit lib s = Inr s'"
  shows "df s' = df s" "y_train s' = y_train s" "y_test s' = y_test s"
    "X_train_frame s' = X_train_frame s" "X_test_frame s' = X_test_frame s"
    "X_train s' = X_train s" "X_test s' = X_test s" "scaler s' = scaler s"
    "selected_features s' = selected_features s" "importances s' = importances s"
    "Xtrain_sel s' = select_columns (X_train s') (selected_features s')"
    "X_test_selected s' = select_columns (X_test s') (selected_features s')"
  using assms by (auto simp: cell6_refit_def and_then_Inr Let_def print_def elapse_def)

lemma cell7_frame:
  assumes "cell7 lib s = Inr s'"
  shows "df s' = df s" "y_train s' = y_train s" "y_test s' = y_test s"
    "X_train_frame s' = X_train_frame s" "X_test_frame s' = X_test_frame s"
    "X_train s' = X_train s" "X_test s' = X_test s" "scaler s' = scaler s"
    "selected_features s' = selected_features s"
    "Xtrain_sel s' = Xtrain_sel s" "X_test_selected s' = X_test_selected s"
  using assms by (auto simp: cell7_def and_then_Inr Let_def print_def elapse_def)

section \<open>Properties of the feature selection\<close>

lemma cumsum_from_lower:
  "\<forall>x \<in> set xs. 0 \<le> x \<Longrightarrow> c \<in> set (cumsum_from acc xs) \<Longrightarrow> acc + hd xs \<le> c"
proof (induction xs arbitrary: acc c)
  case Nil
  then show ?case by simp
next
  case (Cons x xs)
  show ?case
  proof (cases "c = acc + x")
    case True
    then show ?thesis by simp
  next
    case False
    with Cons.prems have in_tl: "c \<in> set (cumsum_from (acc + x) xs)" by simp
    then have "xs \<noteq> []" by auto
    then have "0 \<le> hd xs" using Cons.prems(1) by simp
    moreover have "acc + x + hd xs \<le> c"
      using Cons.IH [of c "acc + x"] Cons.prems(1) in_tl by simp
    ultimately show ?thesis by simp
  qed
qed

lemma set_indices: "set (indices_of a) = {0..<length a}"
  by (simp add: indices_of_def argsort_def)

lemma sorted_argsort: "sorted (map (\<lambda>i. a ! i) (argsort a))"
  by (simp add: argsort_def)

lemma hd_indices_max:
  assumes "x \<in> set a"
  shows "x \<le> hd (take_idx a (indices_of a))"
proof -
  let ?s = "map (\<lambda>i. a ! i) (argsort a)"
  have set_s: "set ?s = set a"
  proof -
    have "set ?s = (\<lambda>i. a ! i) ` {0..<length a}" by (simp add: argsort_def)
    also have "\<dots> = set a" using nth_image [of "length a" a] by simp
    finally show ?thesis .
  qed
  have ne: "?s \<noteq> []" using assms set_s by auto
  have "take_idx a (indices_of a) = rev ?s"
    by (simp add: take_idx_def indices_of_def rev_map)
  then have "hd (take_idx a (indices_of a)) = last ?s"
    using ne by (simp add: hd_rev)
  moreover have "x \<le> last ?s"
  proof -
    from assms set_s have "x \<in> set ?s" by simp
    then obtain k where k: "k < length ?s" "?s ! k = x" by (auto simp: in_set_conv_nth)
    have "?s ! k \<le> ?s ! (length ?s - 1)"
      using sorted_argsort [of a] k(1) by (intro sorted_nth_mono) auto
    then show ?thesis using k(2) ne by (simp add: last_conv_nth)
  qed
  ultimately show ?thesis by simp
qed

lemma selected_features_of_dominant:
  assumes "\<forall>x \<in> set imp. 0 \<le> x"
    and "\<exists>x \<in> set imp. 9 / 10 < x"
  shows "selected_features_of imp = []"
proof -
  let ?v = "take_idx imp (indices_of imp)"
  from assms(2) obtain x where x: "x \<in> set imp" "9 / 10 < x" by blast
  have big: "9 / 10 < hd ?v" using hd_indices_max [OF x(1)] x(2) by simp
  have nonneg: "\<forall>y \<in> set ?v. 0 \<le> y"
    using assms(1) set_indices [of imp] by (auto simp: take_idx_def)
  have "\<forall>c \<in> set (cum_important_of imp). 9 / 10 < c"
  proof
    fix c assume "c \<in> set (cum_important_of imp)"
    then have "0 + hd ?v \<le> c"
      unfolding cum_important_of_def cumsum_def by (rule cumsum_from_lower [OF nonneg])
    with big show "9 / 10 < c" by simp
  qed
  then have "filter (\<lambda>(feature, cumulative_importance). cumulative_importance \<le> 9 / 10)
       (zip (indices_of imp) (cum_important_of imp)) = []"
    by (auto simp: filter_empty_conv dest!: set_zip_rightD)
  then show ?thesis by (simp add: selected_features_of_def)
qed

section \<open>Runs of the notebooks: auxiliary facts\<close>

lemma is_arrangement_backwards: "is_arrangement backwards"
  by (simp add: is_arrangement_def backwards_def)

lemma run_notebook_Inr:
  assumes "run_notebook lib s = Inr s'"
  obtains s2 s3 s4 s5 s6 where "cell2 lib s = Inr s2" "cell3 lib s2 = Inr s3"
    "cell4 lib s3 = Inr s4" "cell5 lib s4 = Inr s5" "cell6 lib s5 = Inr s6"
    "cell7 lib s6 = Inr s'"
  using assms by (auto simp: run_notebook_def notebook_cells_def and_then_Inr)

lemma cell7_time:
  assumes "cell7 lib s = Inr s'"
  shows "execution_time s' = seconds lib Cell7_grid_search"
    and "last (out s') = Number ''Execution time:'' (seconds lib Cell7_grid_search)"
  using assms by (auto simp: cell7_def and_then_Inr Let_def print_def elapse_def)

lemma cell5_time:
  assumes "cell5 lib s = Inr s'"
  shows "exce s' = seconds lib Cell5_fit"
    and "last (out s') = Number ''Execution time:'' (seconds lib Cell5_fit)"
  using assms by (auto simp: cell5_def and_then_Inr Let_def print_def elapse_def)

lemma cell6_time:
  assumes "cell6 lib s = Inr s'"
  shows "execution_time s' = seconds lib Cell6_fit_selected"
    and "last (out s') = Number ''Time Execution:'' (seconds lib Cell6_fit_selected)"
  using assms
  by (auto simp: cell6_def cell6_refit_def and_then_Inr Let_def print_def elapse_def)

lemma run_cells_invariant:
  assumes "\<And>c t t'. c \<in> set cs \<Longrightarrow> P t \<Longrightarrow> c t = Inr t' \<Longrightarrow> P t'"
    and "P s" and "run_cells cs s = Inr s'"
  shows "P s'"
  using assms
proof (induction cs arbitrary: s)
  case Nil
  then show ?case by simp
next
  case (Cons c cs)
  from Cons.prems(3) obtain t where t: "c s = Inr t" "run_cells cs t = Inr s'"
    by (auto simp: and_then_Inr)
  have Pt: "P t" using Cons.prems(1) [of c s t] Cons.prems(2) t(1) by simp
  show ?case
  proof (rule Cons.IH [OF _ Pt t(2)])
    fix d u u'
    assume "d \<in> set cs" and "P u" and "d u = Inr u'"
    then show "P u'" using Cons.prems(1) [of d u u'] by simp
  qed
qed

lemma run_cells_take_Suc:
  assumes "run_cells (take (Suc n) (c # cs)) s = Inr s'"
  obtains t where "c s = Inr t" and "run_cells (take n cs) t = Inr s'"
  using assms by (auto simp: and_then_Inr)

lemma cell2_frame:
  assumes "cell2 lib s = Inr s'"
  shows "read_csv lib ''IP_Activity_Dataset_5000.csv'' = Inr (df s')"
  using assms by (auto simp: cell2_def and_then_Inr print_def)

lemma cell3_Inr:
  assumes "cell3 lib s = Inr s'"
  obtains features labels where
    "drop_column ''label'' (df s) = Inr features"
    and "get_column ''label'' (df s) = Inr labels"
    and "train_test_split (arrangement lib) features labels (1 / 2) True
         = Inr (X_train_frame s', X_test_frame s', y_train s', y_test s')"
    and "df s' = df s" and "X s' = features" and "y s' = labels"
  using assms by (auto simp: cell3_def and_then_Inr)

lemma cell6_frame:
  assumes "cell6 lib s = Inr s'"
  shows "df s' = df s" "y_train s' = y_train s" "y_test s' = y_test s"
    "X_train_frame s' = X_train_frame s" "X_test_frame s' = X_test_frame s"
    "X_train s' = X_train s" "X_test s' = X_test s" "scaler s' = scaler s"
    "Xtrain_sel s' = select_columns (X_train s') (selected_features s')"
    "X_test_selected s' = select_columns (X_test s') (selected_features s')"
    "selected_features s' = selected_features_of (importances s')"
proof -
  from assms obtain t where t: "cell6_select lib s = Inr t" "cell6_refit lib t = Inr s'"
    by (auto simp: cell6_def and_then_Inr)
  note a = cell6_select_frame [OF t(1)] and b = cell6_refit_frame [OF t(2)]
  show "df s' = df s" "y_train s' = y_train s" "y_test s' = y_test s"
    "X_train_frame s' = X_train_frame s" "X_test_frame s' = X_test_frame s"
    "X_train s' = X_train s" "X_test s' = X_test s" "scaler s' = scaler s"
    by (simp_all add: a b)
  show "Xtrain_sel s' = select_columns (X_train s') (selected_features s')"
    "X_test_selected s' = select_columns (X_test s') (selected_features s')"
    by (rule b)+
  show "selected_features s' = selected_features_of (importances s')"
    by (simp add: a b)
qed

lemma later_cells_keep:
  assumes "c \<in> set [cell4 lib, cell5 lib, cell6 lib, cell7 lib]" and "c t = Inr t'"
  shows "df t' = df t" "y_train t' = y_train t" "y_test t' = y_test t"
    "X_train_frame t' = X_train_frame t" "X_test_frame t' = X_test_frame t"
proof -
  from assms(1) consider "c = cell4 lib" | "c = cell5 lib" | "c = cell6 lib" | "c = cell7 lib"
    by auto
  then have "df t' = df t \<and> y_train t' = y_train t \<and> y_test t' = y_test t
      \<and> X_train_frame t' = X_train_frame t \<and> X_test_frame t' = X_test_frame t"
  proof cases
    case 1
    with assms(2) have "cell4 lib t = Inr t'" by simp
    then show ?thesis by (simp add: cell4_frame(1-5))
  next
    case 2
    with assms(2) have "cell5 lib t = Inr t'" by simp
    then show ?thesis by (simp add: cell5_frame(1-5))
  next
    case 3
    with assms(2) have "cell6 lib t = Inr t'" by simp
    then show ?thesis by (simp add: cell6_frame(1-5))
  next
    case 4
    with assms(2) have "cell7 lib t = Inr t'" by simp
    then show ?thesis by (simp add: cell7_frame(1-5))
  qed
  then show "df t' = df t" "y_train t' = y_train t" "y_test t' = y_test t"
    "X_train_frame t' = X_train_frame t" "X_test_frame t' = X_test_frame t"
    by simp_all
qed

lemma prefix_loaded:
  assumes "run_cells (take k (notebook_cells lib)) s = Inr s'" and "1 \<le> k"
  shows "read_csv lib ''IP_Activity_Dataset_5000.csv'' = Inr (df s')"
proof -
  let ?loaded = "\<lambda>t. read_csv lib ''IP_Activity_Dataset_5000.csv'' = Inr (df t)"
  from assms(2) obtain n where k: "k = Suc n" by (cases k) simp_all
  from assms(1) obtain s2 where s2: "cell2 lib s = Inr s2"
    and r2: "run_cells (take n [cell3 lib, cell4 lib, cell5 lib, cell6 lib, cell7 lib]) s2 = Inr s'"
    unfolding k notebook_cells_def by (rule run_cells_take_Suc)
  have keep: "df t' = df t"
    if "c \<in> set [cell3 lib, cell4 lib, cell5 lib, cell6 lib, cell7 lib]" "c t = Inr t'"
    for c t t'
  proof (cases "c = cell3 lib")
    case True
    with that(2) show ?thesis by (auto elim: cell3_Inr)
  next
    case False
    with that(1) have "c \<in> set [cell4 lib, cell5 lib, cell6 lib, cell7 lib]" by simp
    then show ?thesis using that(2) by (rule later_cells_keep(1))
  qed
  show ?thesis
  proof (rule run_cells_invariant [where P = ?loaded, OF _ _ r2])
    show "?loaded s2" by (rule cell2_frame [OF s2])
    fix c t t'
    assume "c \<in> set (take n [cell3 lib, cell4 lib, cell5 lib, cell6 lib, cell7 lib])"
      and "?loaded t" and "c t = Inr t'"
    then show "?loaded t'" using keep [of c t t'] by (auto dest: in_set_takeD)
  qed
qed

lemma prefix_split:
  assumes "run_cells (take k (notebook_cells lib)) s = Inr s'" and "2 \<le> k"
  obtains s2 s3 where "cell2 lib s = Inr s2" and "cell3 lib s2 = Inr s3"
    and "run_cells (take (k - 2) [cell4 lib, cell5 lib, cell6 lib, cell7 lib]) s3 = Inr s'"
proof -
  from assms(2) have "k = Suc (Suc (k - 2))" by simp
  then obtain n where k: "k = Suc (Suc n)" ..
  from assms(1) obtain s2 where s2: "cell2 lib s = Inr s2"
    and r2: "run_cells (take (Suc n) [cell3 lib, cell4 lib, cell5 lib, cell6 lib, cell7 lib]) s2
             = Inr s'"
    unfolding k notebook_cells_def by (rule run_cells_take_Suc)
  from r2 obtain s3 where "cell3 lib s2 = Inr s3"
    and "run_cells (take n [cell4 lib, cell5 lib, cell6 lib, cell7 lib]) s3 = Inr s'"
    by (rule run_cells_take_Suc)
  with s2 that show ?thesis by (simp add: k)
qed

lemma prefix_scaled:
  assumes "run_cells (take k (notebook_cells lib)) s = Inr s'" and "3 \<le> k"
  shows "X_train s' = transform (scaler s') (frame_values (X_train_frame s'))"
    and "X_test s' = transform (scaler s') (frame_values (X_test_frame s'))"
proof -
  let ?scaled = "\<lambda>t. X_train t = transform (scaler t) (frame_values (X_train_frame t))
       \<and> X_test t = transform (scaler t) (frame_values (X_test_frame t))"
  from assms obtain s3 where
    r3: "run_cells (take (k - 2) [cell4 lib, cell5 lib, cell6 lib, cell7 lib]) s3 = Inr s'"
    by (auto elim: prefix_split)
  from assms(2) have "k - 2 = Suc (k - 3)" by simp
  then obtain m where m: "k - 2 = Suc m" ..
  from r3 obtain s4 where s4: "cell4 lib s3 = Inr s4"
    and r4: "run_cells (take m [cell5 lib, cell6 lib, cell7 lib]) s4 = Inr s'"
    unfolding m by (rule run_cells_take_Suc)
  have "?scaled s'"
  proof (rule run_cells_invariant [where P = ?scaled, OF _ _ r4])
    show "?scaled s4" using cell4_frame(6,7) [OF s4] by simp
    fix c t t'
    assume "c \<in> set (take m [cell5 lib, cell6 lib, cell7 lib])"
      and "?scaled t" and "c t = Inr t'"
    then show "?scaled t'"
      using cell5_frame(4-8) [of lib t t'] cell6_frame(4-8) [of lib t t']
        cell7_frame(4-8) [of lib t t']
      by (auto dest!: in_set_takeD)
  qed
  then show "X_train s' = transform (scaler s') (frame_values (X_train_frame s'))"
    and "X_test s' = transform (scaler s') (frame_values (X_test_frame s'))"
    by simp_all
qed

lemma prefix_selected:
  assumes "run_cells (take k (notebook_cells lib)) s = Inr s'" and "5 \<le> k"
  shows "Xtrain_sel s' = select_columns (X_train s') (selected_features s')"
    and "X_test_selected s' = select_columns (X_test s') (selected_features s')"
proof -
  let ?sel = "\<lambda>t. Xtrain_sel t = select_columns (X_train t) (selected_features t)
       \<and> X_test_selected t = select_columns (X_test t) (selected_features t)"
  from assms obtain s3 where
    r3: "run_cells (take (k - 2) [cell4 lib, cell5 lib, cell6 lib, cell7 lib]) s3 = Inr s'"
    by (auto elim: prefix_split)
  from assms(2) have "k - 2 = Suc (Suc (Suc (k - 5)))" by simp
  then obtain m where m: "k - 2 = Suc (Suc (Suc m))" ..
  from r3 obtain s4 where
    r4: "run_cells (take (Suc (Suc m)) [cell5 lib, cell6 lib, cell7 lib]) s4 = Inr s'"
    unfolding m by (rule run_cells_take_Suc)
  from r4 obtain s5 where
    r5: "run_cells (take (Suc m) [cell6 lib, cell7 lib]) s5 = Inr s'"
    by (rule run_cells_take_Suc)
  from r5 obtain s6 where s6: "cell6 lib s5 = Inr s6"
    and r6: "run_cells (take m [cell7 lib]) s6 = Inr s'"
    by (rule run_cells_take_Suc)
  have "?sel s'"
  proof (rule run_cells_invariant [where P = ?sel, OF _ _ r6])
    show "?sel s6" using cell6_frame(9,10) [OF s6] by simp
    fix c t t'
    assume "c \<in> set (take m [cell7 lib])" and "?sel t" and "c t = Inr t'"
    then show "?sel t'" using cell7_frame [of lib t t'] by (auto dest!: in_set_takeD)
  qed
  then show "Xtrain_sel s' = select_columns (X_train s') (selected_features s')"
    and "X_test_selected s' = select_columns (X_test s') (selected_features s')"
    by simp_all
qed

lemma drop_column_labels:
  "drop_column name d = Inr f \<Longrightarrow> map fst (rows f) = map fst (rows d)"
  by (auto simp: drop_column_def Let_def split: if_splits)

lemma get_column_labels:
  "get_column name d = Inr l \<Longrightarrow> map fst l = map fst (rows d)"
  by (auto simp: get_column_def split: list.splits)

lemma iloc_but_last_labels: "map fst (rows (iloc_but_last d)) = map fst (rows d)"
  by (auto simp: iloc_but_last_def)

lemma iloc_last_labels: "iloc_last d = Inr l \<Longrightarrow> map fst l = map fst (rows d)"
  by (auto simp: iloc_last_def split: if_splits)

lemma map_take_idx:
  "set idx \<subseteq> {0..<length xs} \<Longrightarrow> map f (take_idx xs idx) = take_idx (map f xs) idx"
  by (auto simp: take_idx_def)

lemma train_test_split_labels:
  assumes arr: "is_arrangement arr"
    and ok: "train_test_split arr F L t s = Inr (a, b, c, d)"
    and lab: "map fst (rows F) = map fst L"
  shows "map fst (rows a) = map fst c" and "map fst (rows b) = map fst d"
proof -
  let ?n = "length (rows F)"
  from ok have len: "length L = ?n"
    by (auto simp: train_test_split_def split: if_splits)
  from ok len obtain n_train n_test where
    v: "validate_shuffle_split ?n t = Inr (n_train, n_test)"
    by (auto simp: train_test_split_def and_then_Inr)
  define perm where "perm = arr (if s then Some (map snd L) else None) ?n"
  have "mset perm = mset [0..<?n]" using arr unfolding perm_def is_arrangement_def by blast
  then have sp: "set perm = {0..<?n}" by (metis set_mset_mset set_upt)
  have "set (take n_train (drop n_test perm)) \<subseteq> set perm"
    by (auto dest!: in_set_takeD in_set_dropD)
  then have s1: "set (take n_train (drop n_test perm)) \<subseteq> {0..<?n}"
    unfolding sp .
  have "set (take n_test perm) \<subseteq> set perm"
    by (auto dest!: in_set_takeD)
  then have s2: "set (take n_test perm) \<subseteq> {0..<?n}"
    unfolding sp .
  from ok len v have res:
    "rows a = take_idx (rows F) (take n_train (drop n_test perm))"
    "rows b = take_idx (rows F) (take n_test perm)"
    "c = take_idx L (take n_train (drop n_test perm))"
    "d = take_idx L (take n_test perm)"
    by (auto simp: train_test_split_def and_then_Inr Let_def perm_def [symmetric]
        split: if_splits)
  show "map fst (rows a) = map fst c"
    unfolding res using s1 len lab by (simp add: map_take_idx)
  show "map fst (rows b) = map fst d"
    unfolding res using s2 len lab by (simp add: map_take_idx)
qed

lemma label_partition:
  assumes "mset c + mset d = mset L" and "distinct (map fst L)"
  shows "set (map fst c) \<inter> set (map fst d) = {}"
    and "set (map fst c) \<union> set (map fst d) = set (map fst L)"
proof -
  have "mset (c @ d) = mset L" using assms(1) by simp
  then have m: "mset (map fst c @ map fst d) = mset (map fst L)"
    by (metis mset_map map_append)
  then have "distinct (map fst c @ map fst d)"
    using assms(2) by (metis mset_eq_imp_distinct_iff)
  then show "set (map fst c) \<inter> set (map fst d) = {}" by simp
  from m have "set (map fst c @ map fst d) = set (map fst L)" by (rule mset_eq_setD)
  then show "set (map fst c) \<union> set (map fst d) = set (map fst L)" by simp
qed

lemma length_transform [simp]: "length (transform sc M) = length M"
  by (simp add: transform_def)

lemma length_select_columns [simp]: "length (select_columns M cols) = length M"
  by (simp add: select_columns_def)

lemma length_frame_values [simp]: "length (frame_values d) = length (rows d)"
  by (simp add: frame_values_def)

lemma cell3_partition:
  assumes arr: "is_arrangement (arrangement lib)"
    and ok: "cell3 lib s = Inr s'"
  shows "map fst (rows (X_train_frame s')) = map fst (y_train s')"
    and "map fst (rows (X_test_frame s')) = map fst (y_test s')"
    and "mset (y_train s') + mset (y_test s') = mset (y s')"
    and "map fst (y s') = map fst (rows (df s'))"
    and "length (rows (X_train_frame s')) + length (rows (X_test_frame s')) = length (rows (df s))"
    and "length (rows (X_test_frame s')) = nat \<lceil>1 / 2 * (of_nat (length (rows (df s))) :: rat)\<rceil>"
    and "df s' = df s"
proof -
  from ok obtain features labels where
    f: "drop_column ''label'' (df s) = Inr features"
    and l: "get_column ''label'' (df s) = Inr labels"
    and sp: "train_test_split (arrangement lib) features labels (1 / 2) True
         = Inr (X_train_frame s', X_test_frame s', y_train s', y_test s')"
    and e: "df s' = df s" "y s' = labels"
    by (rule cell3_Inr)
  note lf = drop_column_labels [OF f] and ll = get_column_labels [OF l]
  have n: "length (rows features) = length (rows (df s))"
    using lf by (metis length_map)
  show "map fst (rows (X_train_frame s')) = map fst (y_train s')"
    and "map fst (rows (X_test_frame s')) = map fst (y_test s')"
    using train_test_split_labels [OF arr sp] lf ll by simp_all
  show "mset (y_train s') + mset (y_test s') = mset (y s')"
    using train_test_split_parts(4) [OF arr sp] e by simp
  show "map fst (y s') = map fst (rows (df s'))" using ll e by simp
  show "length (rows (X_train_frame s')) + length (rows (X_test_frame s'))
        = length (rows (df s))"
    using train_test_split_parts(2) [OF arr sp] n by simp
  show "length (rows (X_test_frame s'))
        = nat \<lceil>1 / 2 * (of_nat (length (rows (df s))) :: rat)\<rceil>"
    using train_test_split_parts(1) [OF arr sp] n by simp
  show "df s' = df s" by (rule e)
qed

lemma example_run:
  obtains s' where "run_notebook example_library fresh = Inr s'"
proof -
  have "\<not> isl (run_notebook example_library fresh)" by code_simp
  then show ?thesis using that by (cases "run_notebook example_library fresh") simp_all
qed

lemma arrangement_example: "is_arrangement (arrangement example_library)"
  by (simp add: example_library_def is_arrangement_backwards)

lemma half_ceiling:
  fixes n :: nat
  defines "t \<equiv> nat \<lceil>1 / 2 * (of_nat n :: rat)\<rceil>"
  shows "n \<le> 2 * t" and "2 * t < n + 2" and "2 \<le> n \<Longrightarrow> t < n"
proof -
  define x :: rat where "x = 1 / 2 * of_nat n"
  define k where "k = \<lceil>x\<rceil>"
  have "x \<le> of_int k" and "of_int k - 1 < x"
    using ceiling_correct [of x] by (simp_all add: k_def)
  then have "(of_int (int n) :: rat) \<le> of_int (2 * k)"
    and "(of_int (2 * k) :: rat) < of_int (int n + 2)"
    by (simp_all add: x_def)
  then have k: "int n \<le> 2 * k" "2 * k < int n + 2"
    by (simp_all only: of_int_le_iff of_int_less_iff)
  have "t = nat k" by (simp only: t_def k_def x_def)
  moreover have "0 \<le> k" using k by linarith
  ultimately have "int t = k" by simp
  with k have i: "int n \<le> 2 * int t" "2 * int t < int n + 2" by simp_all
  show "n \<le> 2 * t" using i by linarith
  show "2 * t < n + 2" using i by linarith
  show "2 \<le> n \<Longrightarrow> t < n" using i by linarith
qed

lemma get_column_Inr:
  assumes "get_column name d = Inr l"
  shows "name \<in> set (columns d)" and "length l = length (rows d)"
proof -
  from assms obtain j js where
    j: "filter (\<lambda>j. columns d ! j = name) [0..<length (columns d)] = j # js"
    by (auto simp: get_column_def split: list.splits)
  then have "j \<in> set (filter (\<lambda>j. columns d ! j = name) [0..<length (columns d)])" by simp
  then show "name \<in> set (columns d)" by auto
  from assms j show "length l = length (rows d)" by (auto simp: get_column_def)
qed

lemma cell3_returns:
  assumes l: "get_column ''label'' (df s) = Inr labels"
    and n: "2 \<le> length (rows (df s))"
    and c: "stratify_checks (series_values labels)
              (length (rows (df s)) - nat \<lceil>1 / 2 * (of_nat (length (rows (df s))) :: rat)\<rceil>)
              (nat \<lceil>1 / 2 * (of_nat (length (rows (df s))) :: rat)\<rceil>) = Inr ()"
  shows "\<exists>s'. cell3 lib s = Inr s'"
proof -
  note g = get_column_Inr [OF l]
  obtain features where f: "drop_column ''label'' (df s) = Inr features"
    using g(1) by (simp add: drop_column_def Let_def)
  have nf: "length (rows features) = length (rows (df s))"
    using drop_column_labels [OF f] by (metis length_map)
  have lt: "nat \<lceil>1 / 2 * (of_nat (length (rows (df s))) :: rat)\<rceil> < length (rows (df s))"
    by (rule half_ceiling(3) [OF n])
  have v: "validate_shuffle_split (length (rows (df s))) (1 / 2)
      = Inr (length (rows (df s)) - nat \<lceil>1 / 2 * (of_nat (length (rows (df s))) :: rat)\<rceil>,
             nat \<lceil>1 / 2 * (of_nat (length (rows (df s))) :: rat)\<rceil>)"
    using lt by (simp add: validate_shuffle_split_def Let_def)
  have "\<exists>r. train_test_split (arrangement lib) features labels (1 / 2) True = Inr r"
    using c by (simp add: train_test_split_def nf g(2) v and_then_def Let_def series_values_def)
  then obtain a b c d where
    "train_test_split (arrangement lib) features labels (1 / 2) True = Inr (a, b, c, d)"
    by (metis prod_cases4)
  then show ?thesis by (simp add: cell3_def f l and_then_def)
qed

lemma run_cells_Inl:
  "run_cells cs s = Inl e \<longleftrightarrow>
     (\<exists>k < length cs. \<exists>t. run_cells (take k cs) s = Inr t \<and> (cs ! k) t = Inl e)"
proof (induction cs arbitrary: s)
  case Nil
  then show ?case by simp
next
  case (Cons c cs)
  show ?case
  proof (cases "c s")
    case (Inl e')
    have "(\<exists>k < length (c # cs). \<exists>t. run_cells (take k (c # cs)) s = Inr t
            \<and> ((c # cs) ! k) t = Inl e) \<longleftrightarrow> e' = e"
    proof
      assume "\<exists>k < length (c # cs). \<exists>t. run_cells (take k (c # cs)) s = Inr t
            \<and> ((c # cs) ! k) t = Inl e"
      then obtain k t where k: "run_cells (take k (c # cs)) s = Inr t" "((c # cs) ! k) t = Inl e"
        by blast
      show "e' = e"
      proof (cases k)
        case 0
        with k Inl show ?thesis by simp
      next
        case (Suc j)
        with k(1) Inl show ?thesis by (simp add: and_then_def)
      qed
    next
      assume "e' = e"
      with Inl have "run_cells (take 0 (c # cs)) s = Inr s \<and> ((c # cs) ! 0) s = Inl e" by simp
      then show "\<exists>k < length (c # cs). \<exists>t. run_cells (take k (c # cs)) s = Inr t
            \<and> ((c # cs) ! k) t = Inl e"
        by (intro exI [of _ 0] exI [of _ s]) simp
    qed
    with Inl show ?thesis by (simp add: and_then_def)
  next
    case (Inr u)
    have "(\<exists>k < length (c # cs). \<exists>t. run_cells (take k (c # cs)) s = Inr t
            \<and> ((c # cs) ! k) t = Inl e)
        \<longleftrightarrow> (\<exists>j < length cs. \<exists>t. run_cells (take j cs) u = Inr t \<and> (cs ! j) t = Inl e)"
    proof
      assume "\<exists>k < length (c # cs). \<exists>t. run_cells (take k (c # cs)) s = Inr t
            \<and> ((c # cs) ! k) t = Inl e"
      then obtain k t where k: "k < length (c # cs)"
        "run_cells (take k (c # cs)) s = Inr t" "((c # cs) ! k) t = Inl e"
        by blast
      show "\<exists>j < length cs. \<exists>t. run_cells (take j cs) u = Inr t \<and> (cs ! j) t = Inl e"
      proof (cases k)
        case 0
        with k Inr show ?thesis by simp
      next
        case (Suc j)
        with k Inr have "j < length cs" "run_cells (take j cs) u = Inr t" "(cs ! j) t = Inl e"
          by (simp_all add: and_then_def)
        then show ?thesis by blast
      qed
    next
      assume "\<exists>j < length cs. \<exists>t. run_cells (take j cs) u = Inr t \<and> (cs ! j) t = Inl e"
      then obtain j t where j: "j < length cs" "run_cells (take j cs) u = Inr t"
        "(cs ! j) t = Inl e"
        by blast
      with Inr have "Suc j < length (c # cs) \<and> run_cells (take (Suc j) (c # cs)) s = Inr t
          \<and> ((c # cs) ! Suc j) t = Inl e"
        by (simp add: and_then_def)
      then show "\<exists>k < length (c # cs). \<exists>t. run_cells (take k (c # cs)) s = Inr t
            \<and> ((c # cs) ! k) t = Inl e"
        by blast
    qed
    with Inr Cons.IH [of u] show ?thesis by (simp add: and_then_def)
  qed
qed

lemma cell3_single_member_class:
  assumes l: "get_column ''label'' (df s) = Inr labels"
    and n: "2 \<le> length (rows (df s))"
    and c: "\<not> list_all (\<lambda>k. 2 \<le> k) (class_counts (series_values labels))"
  shows "cell3 lib s = Inl ValueError"
proof -
  note g = get_column_Inr [OF l]
  obtain features where f: "drop_column ''label'' (df s) = Inr features"
    using g(1) by (simp add: drop_column_def Let_def)
  have nf: "length (rows features) = length (rows (df s))"
    using drop_column_labels [OF f] by (metis length_map)
  have lt: "nat \<lceil>1 / 2 * (of_nat (length (rows (df s))) :: rat)\<rceil> < length (rows (df s))"
    by (rule half_ceiling(3) [OF n])
  have v: "validate_shuffle_split (length (rows (df s))) (1 / 2)
      = Inr (length (rows (df s)) - nat \<lceil>1 / 2 * (of_nat (length (rows (df s))) :: rat)\<rceil>,
             nat \<lceil>1 / 2 * (of_nat (length (rows (df s))) :: rat)\<rceil>)"
    using lt by (simp add: validate_shuffle_split_def Let_def)
  have "train_test_split (arrangement lib) features labels (1 / 2) True = Inl ValueError"
    using c
    by (simp add: train_test_split_def nf g(2) v and_then_def stratify_checks_def
        series_values_def)
  then show ?thesis by (simp add: cell3_def f l and_then_def)
qed

lemma myTrainTestSplit_too_few_rows:
  assumes "columns normal \<noteq> []" and "columns anomalous \<noteq> []"
    and "length (rows normal) < 2"
  shows "myTrainTestSplit arr normal anomalous = Inl ValueError"
proof -
  obtain yN where yN: "iloc_last normal = Inr yN" using assms(1) by (simp add: iloc_last_def)
  obtain yA where yA: "iloc_last anomalous = Inr yA" using assms(2) by (simp add: iloc_last_def)
  have "length (rows normal) - nat \<lceil>3 / 10 * (of_nat (length (rows normal)) :: rat)\<rceil> = 0"
    using n_test_three_tenths(1) [of "length (rows normal)"] assms(3) by linarith
  then have "validate_shuffle_split (length (rows normal)) (3 / 10) = Inl ValueError"
    by (simp add: validate_shuffle_split_def Let_def)
  then have "train_test_split arr (iloc_but_last normal) yN (3 / 10) False = Inl ValueError"
    using length_iloc_last [OF yN] by (simp add: train_test_split_def and_then_def)
  then show ?thesis by (simp add: myTrainTestSplit_def yN yA and_then_def Let_def)
qed

lemma evaluate_fit_failure:
  assumes "fit_estimator lib DecisionTree features labels = Inl e"
  shows "myEvaluateSupervisedModelPerformance lib w features labels test test_labels = Inl e"
  using assms
  by (simp add: myEvaluateSupervisedModelPerformance_def myDecisionTree_def build_and_fit_def
      and_then_def Let_def)

lemma cell5_scoring_failure:
  assumes "fit lib (RandomForestClassifier 5 5) (X_train s) (series_values (y_train s))
             = Inr fitted"
    and "predict lib fitted (X_test s) = Inr predicted"
    and "accuracy_score (series_values (y_test s)) predicted = Inr acc"
    and "f1_score (series_values (y_test s)) predicted = Inl e"
  shows "cell5 lib s = Inl e"
  using assms by (simp add: cell5_def and_then_def Let_def elapse_def)

lemma run_pipeline_Inl:
  "run_pipeline lib p = Inl e \<longleftrightarrow>
     read_csv lib ''normal.csv'' = Inl e
     \<or> (\<exists>d. read_csv lib ''normal.csv'' = Inr d \<and> read_csv lib ''anomalous.csv'' = Inl e)"
  by (cases "read_csv lib ''normal.csv''"; cases "read_csv lib ''anomalous.csv''")
    (auto simp: run_pipeline_def load_normal_def load_anomalous_def and_then_def)

lemma select_no_columns: "select_columns M [] = map (\<lambda>row. []) M"
  by (simp add: select_columns_def take_idx_def)

lemma cell6_refit_call:
  "cell6_refit lib s =
     and_then (fit lib (rf s) (select_columns (X_train s) (selected_features s))
                 (series_values (y_train s)))
       (\<lambda>fitted. cell6_refit lib s)"
  by (cases "fit lib (rf s) (select_columns (X_train s) (selected_features s))
                 (series_values (y_train s))")
    (simp_all add: cell6_refit_def and_then_def Let_def)

lemma cell6_refit_fitted:
  assumes "cell6_refit lib s = Inr s'"
  shows "fit lib (rf s) (select_columns (X_train s) (selected_features s))
           (series_values (y_train s)) = Inr (rf s')"
  using assms by (auto simp: cell6_refit_def and_then_Inr Let_def print_def elapse_def)

section \<open>C1: the selection stops short of the threshold\<close>

text \<open>
  C1. The claim: the selected features are the prefix of the descending ranking taken
  until the cumulative importance reaches 0.9, and together account for 90% of the
  importance. The code does otherwise. The importances 1/2, 5/16, 3/16 sum to 1.
  Ranked in descending order their running sums are 1/2, 13/16 and 1; the
  comprehension keeps the first two features, which carry 13/16 of the importance,
  less than 0.9. The feature at which the running sum reaches 0.9 is left out.
\<close>

theorem selected_features_below_threshold:
  "selected_features_of [1 / 2, 5 / 16, 3 / 16] = [0, 1]
   \<and> importance_mass [1 / 2, 5 / 16, 3 / 16] (selected_features_of [1 / 2, 5 / 16, 3 / 16]) = 13 / 16
   \<and> importance_mass [1 / 2, 5 / 16, 3 / 16] (selected_features_of [1 / 2, 5 / 16, 3 / 16])
       < 9 / 10 * sum_list [1 / 2, 5 / 16, 3 / 16]"
  by code_simp

section \<open>C2: the hand-rolled split keeps the ratio of the sources\<close>



section \<open>C3: the split is a partition, and the later cells keep it\<close>



section \<open>C4: training and test rows add up to the source rows\<close>

text \<open>
  C4. First notebook: when the stratified 50-50 split of cell 3 returns, its training
  and test rows add up to the rows of the loaded table, 2500 and 2500 for a table of
  5000 rows; and it returns whenever the table has a label column, at least two rows,
  and labels that pass the library's checks on the class sizes. Second notebook: the
  rows of the two tables that \<^verbatim>\<open>myTrainTestSplit\<close> returns add up to the rows of
  the normal and the anomalous table.
\<close>

theorem split_row_counts_add_up:
  assumes arr: "is_arrangement (arrangement lib)"
  shows "(cell3 lib s = Inr s' \<longrightarrow>
            length (rows (X_train_frame s')) + length (rows (X_test_frame s'))
              = length (rows (df s))
          \<and> length (y_train s') + length (y_test s') = length (rows (df s))
          \<and> (length (rows (df s)) = 5000 \<longrightarrow>
                length (rows (X_train_frame s')) = 2500
              \<and> length (rows (X_test_frame s')) = 2500))
       \<and> (get_column ''label'' (df s) = Inr labels \<and> 2 \<le> length (rows (df s))
          \<and> stratify_checks (series_values labels)
              (length (rows (df s)) - nat \<lceil>1 / 2 * (of_nat (length (rows (df s))) :: rat)\<rceil>)
              (nat \<lceil>1 / 2 * (of_nat (length (rows (df s))) :: rat)\<rceil>) = Inr ()
          \<longrightarrow> (\<exists>t. cell3 lib s = Inr t))
       \<and> (myTrainTestSplit (arrangement lib) normal anomalous = Inr (Xtr, Xte, ytr, yte) \<longrightarrow>
            length (rows Xtr) + length (rows Xte)
              = length (rows normal) + length (rows anomalous)
          \<and> length ytr + length yte = length (rows normal) + length (rows anomalous))"
proof (intro conjI impI; (elim conjE)?)
  assume ok: "cell3 lib s = Inr s'"
  note p = cell3_partition [OF arr ok]
  show sum: "length (rows (X_train_frame s')) + length (rows (X_test_frame s'))
      = length (rows (df s))"
    by (rule p(5))
  have "length (rows (X_train_frame s')) = length (y_train s')"
    "length (rows (X_test_frame s')) = length (y_test s')"
    using p(1,2) by (metis length_map)+
  then show "length (y_train s') + length (y_test s') = length (rows (df s))"
    using sum by simp
  {
    assume n: "length (rows (df s)) = 5000"
    have "nat \<lceil>1 / 2 * (of_nat 5000 :: rat)\<rceil> = 2500"
      using half_ceiling(1,2) [of 5000] by linarith
    then show te: "length (rows (X_test_frame s')) = 2500" using p(6) unfolding n by simp
    then show "length (rows (X_train_frame s')) = 2500" using sum n by simp
  }
next
  assume "get_column ''label'' (df s) = Inr labels" and "2 \<le> length (rows (df s))"
    and "stratify_checks (series_values labels)
              (length (rows (df s)) - nat \<lceil>1 / 2 * (of_nat (length (rows (df s))) :: rat)\<rceil>)
              (nat \<lceil>1 / 2 * (of_nat (length (rows (df s))) :: rat)\<rceil>) = Inr ()"
  then show "\<exists>t. cell3 lib s = Inr t" by (rule cell3_returns)
next
  assume ok: "myTrainTestSplit (arrangement lib) normal anomalous = Inr (Xtr, Xte, ytr, yte)"
  from ok obtain yN yA a b c d a' b' c' d' where
    sN: "train_test_split (arrangement lib) (iloc_but_last normal) yN (3 / 10) False
             = Inr (a, b, c, d)"
    and sA: "train_test_split (arrangement lib) (iloc_but_last anomalous) yA (3 / 10) False
             = Inr (a', b', c', d')"
    and res: "Xtr = concat_frames a a'" "Xte = concat_frames b b'"
      "ytr = concat_series c c'" "yte = concat_series d d'"
    by (rule myTrainTestSplit_Inr)
  note pN = train_test_split_parts [OF arr sN] and pA = train_test_split_parts [OF arr sA]
  show "length (rows Xtr) + length (rows Xte) = length (rows normal) + length (rows anomalous)"
    using pN(2) pA(2) by (simp add: res concat_frames_def)
  show "length ytr + length yte = length (rows normal) + length (rows anomalous)"
    using pN(2,5,6) pA(2,5,6) by (simp add: res concat_series_def)
qed

theorem split_row_counts_add_up_witness:
  "is_arrangement (arrangement example_library)
   \<and> (\<exists>s s'. cell2 example_library fresh = Inr s \<and> cell3 example_library s = Inr s'
         \<and> length (rows (df s)) = 8
         \<and> length (rows (X_train_frame s')) + length (rows (X_test_frame s')) = 8)
   \<and> (\<exists>Xtr Xte ytr yte.
         myTrainTestSplit (arrangement example_library) example_table example_anomalous
           = Inr (Xtr, Xte, ytr, yte)
         \<and> length (rows Xtr) + length (rows Xte) = 10)"
proof -
  obtain t where "run_notebook example_library fresh = Inr t" by (rule example_run)
  then obtain s s' where s: "cell2 example_library fresh = Inr s"
    and s': "cell3 example_library s = Inr s'"
    by (rule run_notebook_Inr)
  have "read_csv example_library ''IP_Activity_Dataset_5000.csv'' = Inr (df s)"
    by (rule cell2_frame [OF s])
  then have d: "df s = example_table" by (simp add: example_library_def)
  have n: "length (rows (df s)) = 8" unfolding d by (simp add: example_table_def)
  have "\<exists>q. myTrainTestSplit (arrangement example_library) example_table example_anomalous
      = Inr q"
    by (rule myTrainTestSplit_returns) (simp_all add: example_table_def example_anomalous_def)
  then obtain Xtr Xte ytr yte where
    m: "myTrainTestSplit (arrangement example_library) example_table example_anomalous
      = Inr (Xtr, Xte, ytr, yte)"
    by (metis prod_cases4)
  note t = split_row_counts_add_up [OF arrangement_example,
      of s s' "[]" example_table example_anomalous Xtr Xte ytr yte]
  from t s' n have a: "length (rows (X_train_frame s')) + length (rows (X_test_frame s')) = 8"
    by simp
  from t m have "length (rows Xtr) + length (rows Xte)
      = length (rows example_table) + length (rows example_anomalous)"
    by blast
  then have b: "length (rows Xtr) + length (rows Xte) = 10"
    by (simp add: example_table_def example_anomalous_def)
  from arrangement_example s s' n a m b show ?thesis by blast
qed

section \<open>C5: the cells of the confusion matrix add up\<close>



section \<open>C6: the last cell reports the time of the grid search\<close>

text \<open>
  C6. The claim: the execution time printed with the metrics of the final model
  measures the training of that model. The code does otherwise: cell 7 takes the two
  time stamps around \<^verbatim>\<open>grid_search.fit\<close> and never again, so whenever the notebook
  runs to its end, the execution time it prints last is the duration of the grid
  search, whatever the fit of \<^verbatim>\<open>rf_best\<close> took. (Cells 5 and 6 do time their own
  fit: \<open>cell5_time\<close> and \<open>cell6_time\<close> above.)
\<close>

theorem final_execution_time_is_grid_search:
  assumes "run_notebook lib s = Inr s'"
  shows "execution_time s' = seconds lib Cell7_grid_search
       \<and> last (out s') = Number ''Execution time:'' (seconds lib Cell7_grid_search)"
proof -
  from assms obtain s6 where "cell7 lib s6 = Inr s'" by (rule run_notebook_Inr)
  then show ?thesis by (simp add: cell7_time)
qed

theorem final_execution_time_is_grid_search_witness:
  "\<exists>s'. run_notebook example_library fresh = Inr s'
      \<and> execution_time s' = 254 / 1000
      \<and> last (out s') = Number ''Execution time:'' (254 / 1000)
      \<and> seconds example_library Cell7_fit_best = 15 / 1000"
proof -
  have "\<not> isl (run_notebook example_library fresh)" by code_simp
  then obtain s' where r: "run_notebook example_library fresh = Inr s'"
    by (cases "run_notebook example_library fresh") simp_all
  have g: "seconds example_library Cell7_grid_search = 254 / 1000"
    and b: "seconds example_library Cell7_fit_best = 15 / 1000"
    by (simp_all add: example_library_def)
  from final_execution_time_is_grid_search [OF r] r g b show ?thesis by simp
qed

section \<open>C7: an exception ends the run\<close>



section \<open>C8: the loaded table is never written\<close>

text \<open>
  C8. After the first cell and after any number of further cells, \<^verbatim>\<open>df\<close> is the
  table that \<^verbatim>\<open>read_csv\<close> returned; from cell 4 on, \<^verbatim>\<open>X_train\<close> and \<^verbatim>\<open>X_test\<close>
  are the arrays the scaler made from the two parts of the split.
\<close>

theorem dataframe_unchanged_after_load:
  assumes "run_cells (take k (notebook_cells lib)) s = Inr s'" and "1 \<le> k"
  shows "read_csv lib ''IP_Activity_Dataset_5000.csv'' = Inr (df s')
       \<and> (3 \<le> k \<longrightarrow>
            X_train s' = transform (scaler s') (frame_values (X_train_frame s'))
          \<and> X_test s' = transform (scaler s') (frame_values (X_test_frame s')))"
  using prefix_loaded [OF assms] prefix_scaled [OF assms(1)] by blast

theorem dataframe_unchanged_after_load_witness:
  "\<exists>s'. run_cells (take 6 (notebook_cells example_library)) fresh = Inr s' \<and> (1 :: nat) \<le> 6
      \<and> read_csv example_library ''IP_Activity_Dataset_5000.csv'' = Inr (df s')
      \<and> df s' = example_table
      \<and> X_train s' = transform (scaler s') (frame_values (X_train_frame s'))"
proof -
  have "\<not> isl (run_notebook example_library fresh)" by code_simp
  then obtain s' where "run_notebook example_library fresh = Inr s'"
    by (cases "run_notebook example_library fresh") simp_all
  then have r: "run_cells (take 6 (notebook_cells example_library)) fresh = Inr s'"
    by (simp add: run_notebook_def notebook_cells_def)
  have k: "(1 :: nat) \<le> 6" by simp
  have e: "read_csv example_library ''IP_Activity_Dataset_5000.csv'' = Inr example_table"
    by (simp add: example_library_def)
  from dataframe_unchanged_after_load [OF r k] r e show ?thesis by simp
qed

section \<open>C9: a dominant feature leaves nothing selected\<close>



section \<open>C10: the print loop overwrites an attribute of the forest\<close>




end
